theory Spec2Isabelle
  imports Main "HOL-Library.Sublist"
begin

section \<open>The video-generation pipeline of \<^verbatim>\<open>route.py\<close> and the echo endpoint of \<^verbatim>\<open>index.py\<close>\<close>

text \<open>
  The repository holds two HTTP handlers. \<^verbatim>\<open>src/app/api/generate-video/route.py\<close>
  (POST /generate-video) asks a generative model for a Manim script, runs it in a Daytona
  sandbox and answers with the rendered video. \<^verbatim>\<open>api/python/index.py\<close> is a
  health-check and echo endpoint.

  Conventions of the embedding:
  \<^item> A Python \<^verbatim>\<open>str\<close> is a \<open>string\<close>: a list of 8-bit characters, read as the code
    points 0 to 255. Text with code points beyond 255 is outside the model.
    \<^verbatim>\<open>bytes\<close> are a \<open>string\<close> too, one character per byte.
  \<^item> An exception is a value \<open>Raise cls msg\<close>; a call that can raise returns
    \<open>exn + 'a\<close>, with \<open>Inl\<close> for the exception.
  \<^item> Everything outside the process (the JSON parser of the standard library, the
    generative model, the sandbox provider, the random UUID, the process environment) is a
    field of the record \<open>env\<close>, so that a theorem for all \<open>env\<close> holds whatever these
    collaborators answer.
  \<^item> What a handler does to the outside is its \<open>trace\<close>: the remote calls it made, with
    their results, and the responses it wrote, in program order.
\<close>

subsection \<open>Python values and built-ins used by the handlers\<close>

type_synonym bytes = string

datatype exn_class =
  TypeError | ValueError | AttributeError | JSONDecodeError | UnicodeDecodeError
  | OverflowError | MemoryError | Exception | LibraryError

text \<open>
  \<open>Raise cls msg\<close>: an exception of class \<open>cls\<close> whose \<^verbatim>\<open>str(e)\<close> is \<open>msg\<close>.
  Every class listed derives from Python's \<^verbatim>\<open>Exception\<close>; \<open>LibraryError\<close> stands for
  the exception classes of the Daytona and Gemini client libraries.
\<close>

datatype exn = Raise (exn_cls: exn_class) (exn_str: string)

text \<open>
  A value as \<^verbatim>\<open>json.loads\<close> builds it. A Python float is kept as its \<^verbatim>\<open>repr\<close>
  (for instance \<open>''1.5''\<close>, \<open>''-0.0''\<close>, \<open>''inf''\<close>, \<open>''nan''\<close>); a dict as the list of its
  items in insertion order.
\<close>

datatype json =
  JNull | JBool bool | JInt int | JFloat string | JStr string
  | JArr "json list" | JObj "(string \<times> json) list"

definition py_isspace :: "char \<Rightarrow> bool" where
  "py_isspace c = ((of_char c :: nat) \<in> {9, 10, 11, 12, 13, 28, 29, 30, 31, 32, 133, 160})"

definition py_strip :: "string \<Rightarrow> string" where
  "py_strip s = rev (dropWhile py_isspace (rev (dropWhile py_isspace s)))"

text \<open>
  \<^verbatim>\<open>s.replace(old, new)\<close>: the occurrences of \<open>old\<close> are found from left to right and
  do not overlap; with an empty \<open>old\<close>, \<open>new\<close> is put before every character and at the end.
\<close>

function py_replace :: "string \<Rightarrow> string \<Rightarrow> string \<Rightarrow> string" where
  "py_replace old new [] = (if old = [] then new else [])"
| "py_replace old new (c # cs) =
     (if old = [] then new @ c # py_replace old new cs
      else if prefix old (c # cs) then new @ py_replace old new (drop (length old) (c # cs))
      else c # py_replace old new cs)"
  by pat_completeness auto
termination
  by (relation "measure (\<lambda>(old, new, s). length s)") auto

definition is_digit :: "char \<Rightarrow> bool" where
  "is_digit c = (48 \<le> (of_char c :: nat) \<and> (of_char c :: nat) \<le> 57)"

definition digit_val :: "char \<Rightarrow> int" where
  "digit_val c = int (of_char c) - 48"

text \<open>Decimal digits, with single underscores allowed between two digits.\<close>

fun digits_ok :: "string \<Rightarrow> bool" where
  "digits_ok [] = False"
| "digits_ok [c] = is_digit c"
| "digits_ok (c # d # cs) =
     (is_digit c \<and> (if d = CHR ''_'' then digits_ok cs else digits_ok (d # cs)))"

definition digits_value :: "string \<Rightarrow> int" where
  "digits_value s = foldl (\<lambda>n c. 10 * n + digit_val c) 0 (filter is_digit s)"

text \<open>
  The literals \<^verbatim>\<open>int(s)\<close> accepts for a \<^verbatim>\<open>str\<close>: surrounding whitespace, an optional
  sign, then the digits. The whitespace \<^verbatim>\<open>int\<close> skips is not that of \<^verbatim>\<open>str.strip\<close>: the
  separators 28 to 31 are not skipped (\<^verbatim>\<open>int('\x1c82')\<close> raises).
\<close>

definition int_isspace :: "char \<Rightarrow> bool" where
  "int_isspace c = ((of_char c :: nat) \<in> {9, 10, 11, 12, 13, 32, 133, 160})"

definition int_strip :: "string \<Rightarrow> string" where
  "int_strip s = rev (dropWhile int_isspace (rev (dropWhile int_isspace s)))"

definition unsigned_part :: "string \<Rightarrow> string" where
  "unsigned_part s =
     (case int_strip s of [] \<Rightarrow> []
      | c # cs \<Rightarrow> if c = CHR ''+'' \<or> c = CHR ''-'' then cs else c # cs)"

definition is_int_literal :: "string \<Rightarrow> bool" where
  "is_int_literal s = digits_ok (unsigned_part s)"

text \<open>Truthiness (\<^verbatim>\<open>bool(x)\<close>) of a JSON value.\<close>

fun truthy :: "json \<Rightarrow> bool" where
  "truthy JNull = False"
| "truthy (JBool b) = b"
| "truthy (JInt i) = (i \<noteq> 0)"
| "truthy (JFloat r) = (r \<noteq> ''0.0'' \<and> r \<noteq> ''-0.0'')"
| "truthy (JStr s) = (s \<noteq> [])"
| "truthy (JArr xs) = (xs \<noteq> [])"
| "truthy (JObj kvs) = (kvs \<noteq> [])"

subsection \<open>Printing: \<^verbatim>\<open>str\<close>, \<^verbatim>\<open>repr\<close>, \<^verbatim>\<open>json.dumps\<close>, \<^verbatim>\<open>str.encode\<close>\<close>

definition digit_char :: "nat \<Rightarrow> char" where
  "digit_char d = char_of (48 + d)"

function string_of_nat :: "nat \<Rightarrow> string" where
  "string_of_nat n =
     (if n < 10 then [digit_char n] else string_of_nat (n div 10) @ [digit_char (n mod 10)])"
  by pat_completeness auto
termination
  by (relation "measure id") auto

definition string_of_int :: "int \<Rightarrow> string" where
  "string_of_int i =
     (if i < 0 then CHR ''-'' # string_of_nat (nat (- i)) else string_of_nat (nat i))"

definition hex_char :: "nat \<Rightarrow> char" where
  "hex_char d = (if d < 10 then char_of (48 + d) else char_of (87 + d))"

definition hex2 :: "char \<Rightarrow> string" where
  "hex2 c = [hex_char ((of_char c :: nat) div 16), hex_char ((of_char c :: nat) mod 16)]"

text \<open>\<^verbatim>\<open>sep.join(xs)\<close>.\<close>

fun join :: "string \<Rightarrow> string list \<Rightarrow> string" where
  "join sep [] = []"
| "join sep [x] = x"
| "join sep (x # y # ys) = x @ sep @ join sep (y # ys)"

text \<open>
  \<^verbatim>\<open>str.isprintable\<close> on the code points 0 to 255: the controls, the no-break space and
  the soft hyphen are not printable.
\<close>

definition py_isprintable :: "char \<Rightarrow> bool" where
  "py_isprintable c =
     (let n = (of_char c :: nat)
      in 32 \<le> n \<and> n \<noteq> 127 \<and> \<not> (128 \<le> n \<and> n \<le> 160) \<and> n \<noteq> 173)"

definition repr_char :: "char \<Rightarrow> char \<Rightarrow> string" where
  "repr_char quote c =
     (if c = quote \<or> c = CHR 0x5C then [CHR 0x5C, c]
      else if c = CHR 0x09 then [CHR 0x5C, CHR ''t'']
      else if c = CHR 0x0A then [CHR 0x5C, CHR ''n'']
      else if c = CHR 0x0D then [CHR 0x5C, CHR ''r'']
      else if py_isprintable c then [c]
      else [CHR 0x5C, CHR ''x''] @ hex2 c)"

text \<open>
  \<^verbatim>\<open>repr(s)\<close> of a \<^verbatim>\<open>str\<close>: in single quotes, unless \<open>s\<close> has a single quote and no
  double quote.
\<close>

definition py_repr_str :: "string \<Rightarrow> string" where
  "py_repr_str s =
     (let quote = (if CHR 0x27 \<in> set s \<and> CHR 0x22 \<notin> set s then CHR 0x22 else CHR 0x27)
      in quote # concat (map (repr_char quote) s) @ [quote])"

fun py_repr :: "json \<Rightarrow> string" where
  "py_repr JNull = ''None''"
| "py_repr (JBool b) = (if b then ''True'' else ''False'')"
| "py_repr (JInt i) = string_of_int i"
| "py_repr (JFloat r) = r"
| "py_repr (JStr s) = py_repr_str s"
| "py_repr (JArr xs) = ''['' @ join '', '' (map py_repr xs) @ '']''"
| "py_repr (JObj kvs) =
     ''{'' @ join '', '' (map (\<lambda>kv. py_repr_str (fst kv) @ '': '' @ py_repr (snd kv)) kvs) @ ''}''"

text \<open>\<^verbatim>\<open>str(x)\<close>, which is also what an f-string puts for \<^verbatim>\<open>{x}\<close>.\<close>

definition py_str :: "json \<Rightarrow> string" where
  "py_str x = (case x of JStr s \<Rightarrow> s | _ \<Rightarrow> py_repr x)"

text \<open>
  \<^verbatim>\<open>json.dumps\<close> with its defaults: \<^verbatim>\<open>ensure_ascii=True\<close>, items separated by a comma
  and a space, key and value by a colon and a space.
\<close>

definition dumps_char :: "char \<Rightarrow> string" where
  "dumps_char c =
     (if c = CHR 0x22 \<or> c = CHR 0x5C then [CHR 0x5C, c]
      else if c = CHR 0x0A then [CHR 0x5C, CHR ''n'']
      else if c = CHR 0x0D then [CHR 0x5C, CHR ''r'']
      else if c = CHR 0x09 then [CHR 0x5C, CHR ''t'']
      else if c = CHR 0x0C then [CHR 0x5C, CHR ''f'']
      else if c = CHR 0x08 then [CHR 0x5C, CHR ''b'']
      else if 32 \<le> (of_char c :: nat) \<and> (of_char c :: nat) \<le> 126 then [c]
      else [CHR 0x5C, CHR ''u'', CHR ''0'', CHR ''0''] @ hex2 c)"

definition dumps_str :: "string \<Rightarrow> string" where
  "dumps_str s = CHR 0x22 # concat (map dumps_char s) @ [CHR 0x22]"

fun json_dumps :: "json \<Rightarrow> string" where
  "json_dumps JNull = ''null''"
| "json_dumps (JBool b) = (if b then ''true'' else ''false'')"
| "json_dumps (JInt i) = string_of_int i"
| "json_dumps (JFloat r) =
     (if r = ''nan'' then ''NaN'' else if r = ''inf'' then ''Infinity''
      else if r = ''-inf'' then ''-Infinity'' else r)"
| "json_dumps (JStr s) = dumps_str s"
| "json_dumps (JArr xs) = ''['' @ join '', '' (map json_dumps xs) @ '']''"
| "json_dumps (JObj kvs) =
     ''{'' @ join '', '' (map (\<lambda>kv. dumps_str (fst kv) @ '': '' @ json_dumps (snd kv)) kvs) @ ''}''"

text \<open>\<^verbatim>\<open>s.encode()\<close>: UTF-8, one byte below 128 and two bytes from 128 to 255.\<close>

definition encode_char :: "char \<Rightarrow> bytes" where
  "encode_char c =
     (let n = (of_char c :: nat)
      in if n < 128 then [c] else [char_of (192 + n div 64), char_of (128 + n mod 64)])"

definition encode :: "string \<Rightarrow> bytes" where
  "encode s = concat (map encode_char s)"

subsection \<open>Reading: \<^verbatim>\<open>int\<close>, \<^verbatim>\<open>dict.get\<close>, \<^verbatim>\<open>len\<close>\<close>

definition int_max_str_digits :: nat where
  "int_max_str_digits = 4300"

text \<open>
  \<^verbatim>\<open>int(x)\<close> for \<open>x\<close> the result of \<^verbatim>\<open>headers.get(...)\<close>: \<open>None\<close> is Python's
  \<^verbatim>\<open>None\<close>. Since CPython 3.11 a literal of more than 4300 digits is refused as well.
\<close>

definition py_int :: "string option \<Rightarrow> exn + int" where
  "py_int x =
     (case x of
        None \<Rightarrow> Inl (Raise TypeError
          (''int() argument must be a string, a bytes-like object or a real number, not ''
           @ py_repr_str ''NoneType''))
      | Some s \<Rightarrow>
          if \<not> is_int_literal s then
            Inl (Raise ValueError
              (''invalid literal for int() with base 10: '' @ take 200 (py_repr_str s)))
          else if int_max_str_digits < length (filter is_digit s) then
            Inl (Raise ValueError
              (''Exceeds the limit (4300 digits) for integer string conversion: value has ''
               @ string_of_nat (length (filter is_digit s))
               @ '' digits; use sys.set_int_max_str_digits() to increase the limit''))
          else if take 1 (int_strip s) = ''-'' then Inr (- digits_value (unsigned_part s))
          else Inr (digits_value (unsigned_part s)))"

fun py_type_name :: "json \<Rightarrow> string" where
  "py_type_name JNull = ''NoneType''"
| "py_type_name (JBool b) = ''bool''"
| "py_type_name (JInt i) = ''int''"
| "py_type_name (JFloat r) = ''float''"
| "py_type_name (JStr s) = ''str''"
| "py_type_name (JArr xs) = ''list''"
| "py_type_name (JObj kvs) = ''dict''"

text \<open>
  \<^verbatim>\<open>data.get(key, default)\<close>: of the values \<^verbatim>\<open>json.loads\<close> builds, only a dict has
  the method.
\<close>

definition py_get :: "json \<Rightarrow> string \<Rightarrow> json \<Rightarrow> exn + json" where
  "py_get data key dflt =
     (case data of
        JObj kvs \<Rightarrow> Inr (case map_of kvs key of None \<Rightarrow> dflt | Some v \<Rightarrow> v)
      | _ \<Rightarrow> Inl (Raise AttributeError
          (py_repr_str (py_type_name data) @ '' object has no attribute '' @ py_repr_str ''get'')))"

definition py_len :: "json \<Rightarrow> exn + int" where
  "py_len x =
     (case x of
        JStr s \<Rightarrow> Inr (int (length s))
      | JArr xs \<Rightarrow> Inr (int (length xs))
      | JObj kvs \<Rightarrow> Inr (int (length kvs))
      | _ \<Rightarrow> Inl (Raise TypeError
          (''object of type '' @ py_repr_str (py_type_name x) @ '' has no len()'')))"

subsection \<open>The outside world\<close>

text \<open>The handle \<^verbatim>\<open>daytona.create\<close> returns; the orchestrator only passes it on.\<close>

datatype sandbox = Sandbox (sandbox_id: string)

text \<open>What \<^verbatim>\<open>sandbox.process.exec\<close> returns.\<close>

record exec_response =
  exit_code :: int
  result :: string

record request =
  headers :: "(string \<times> string) list"
  rfile :: bytes

text \<open>
  A response as the handler writes it: the status of \<^verbatim>\<open>send_response\<close>, the headers
  of its \<^verbatim>\<open>send_header\<close> calls and the bytes given to \<^verbatim>\<open>wfile.write\<close>.
\<close>

record response =
  status :: int
  resp_headers :: "(string \<times> string) list"
  body :: bytes

text \<open>
  The collaborators. \<open>DAYTONA_API_KEY\<close> and \<open>GEMINI_API_KEY\<close> are the module globals
  read with \<^verbatim>\<open>os.environ.get\<close> (\<open>None\<close> when the variable is unset);
  \<open>json_loads\<close> is \<^verbatim>\<open>json.loads\<close> on the bytes of the body and \<open>json_loads_utf8\<close> is
  \<^verbatim>\<open>json.loads(raw_body.decode("utf-8"))\<close>; \<open>generate_content\<close> maps the prompt to
  \<^verbatim>\<open>response.text\<close> of the model's answer; \<open>uuid4\<close> is \<^verbatim>\<open>str(uuid.uuid4())\<close>;
  \<open>max_alloc\<close> is the largest number of bytes the process can allocate for the result of
  one read, which depends on the machine; the other fields are the Daytona calls the
  handler makes.
\<close>

record env =
  DAYTONA_API_KEY :: "string option"
  GEMINI_API_KEY :: "string option"
  json_loads :: "bytes \<Rightarrow> exn + json"
  json_loads_utf8 :: "bytes \<Rightarrow> exn + json"
  generate_content :: "string \<Rightarrow> exn + string"
  uuid4 :: string
  max_alloc :: nat
  daytona_create :: "exn + sandbox"
  process_exec :: "sandbox \<Rightarrow> string \<Rightarrow> nat \<Rightarrow> exn + exec_response"
  fs_upload_file :: "sandbox \<Rightarrow> string \<Rightarrow> bytes \<Rightarrow> exn + unit"
  fs_download_file :: "sandbox \<Rightarrow> string \<Rightarrow> exn + bytes"
  daytona_remove :: "sandbox \<Rightarrow> exn + unit"

datatype event =
  Generate string "exn + string"
  | Create "exn + sandbox"
  | Exec sandbox string nat "exn + exec_response"
  | Upload sandbox string bytes "exn + unit"
  | Download sandbox string "exn + bytes"
  | Remove sandbox "exn + unit"
  | Send response

text \<open>
  What one call of a handler did: its trace, and the exception that left the handler
  uncaught, if one did.
\<close>

record outcome =
  trace :: "event list"
  uncaught :: "exn option"

text \<open>
  \<^verbatim>\<open>self.headers.get(name)\<close>: header names are compared without regard to case, the
  first match counts, and an absent header gives \<open>None\<close>.
\<close>

definition lower_char :: "char \<Rightarrow> char" where
  "lower_char c =
     (if 65 \<le> (of_char c :: nat) \<and> (of_char c :: nat) \<le> 90
      then char_of ((of_char c :: nat) + 32) else c)"

definition headers_get :: "(string \<times> string) list \<Rightarrow> string \<Rightarrow> string option" where
  "headers_get hs name =
     map_of (map (\<lambda>kv. (map lower_char (fst kv), snd kv)) hs) (map lower_char name)"

text \<open>
  \<^verbatim>\<open>self.rfile.read(n)\<close>, the \<^verbatim>\<open>read\<close> of \<^verbatim>\<open>io.BufferedReader\<close> (64-bit CPython), on
  a stream that holds \<open>bs\<close> until its end. A length outside the range of a C
  \<^verbatim>\<open>ssize_t\<close> and a length the \<^verbatim>\<open>bytes\<close> type cannot hold raise \<^verbatim>\<open>OverflowError\<close>,
  a negative length other than -1 raises \<^verbatim>\<open>ValueError\<close>, -1 reads to the end, and
  a length the process cannot allocate (\<open>limit\<close> is the largest it can) raises
  \<^verbatim>\<open>MemoryError\<close>; otherwise the result is at most \<open>n\<close> bytes.
\<close>

definition rfile_read :: "nat \<Rightarrow> bytes \<Rightarrow> int \<Rightarrow> exn + bytes" where
  "rfile_read limit bs n =
     (if n < - (2 ^ 63) \<or> 2 ^ 63 \<le> n then
        Inl (Raise OverflowError
               (''cannot fit '' @ py_repr_str ''int'' @ '' into an index-sized integer''))
      else if n < - 1 then Inl (Raise ValueError ''read length must be non-negative or -1'')
      else if n = - 1 then Inr bs
      else if 2 ^ 63 - 33 \<le> n then Inl (Raise OverflowError ''byte string is too large'')
      else if int limit < n then Inl (Raise MemoryError [])
      else Inr (take (nat n) bs))"

text \<open>A value of \<^verbatim>\<open>os.environ.get\<close> as a Python value.\<close>

definition environ_value :: "string option \<Rightarrow> json" where
  "environ_value v = (case v of None \<Rightarrow> JNull | Some s \<Rightarrow> JStr s)"

subsection \<open>\<^verbatim>\<open>route.py\<close>: \<^verbatim>\<open>generate_manim_script\<close>\<close>

definition prompt :: "json \<Rightarrow> json \<Rightarrow> string" where
  "prompt latex_equation explanations = join [CHR 0x0A]
     ['''',
      ''    Create a Python script for Manim Community Edition that generates a video based on the following mathematical equation and explanations.'',
      '''',
      ''    **Equation (LaTeX):**'',
      ''    '' @ py_str latex_equation,
      '''',
      ''    **Explanations:**'',
      ''    '' @ py_str explanations,
      '''',
      ''    **Instructions:**'',
      ''    1. The video should start by displaying the full equation.'',
      ''    2. Then, for each variable or term mentioned in the explanations, highlight it in the equation while displaying the corresponding explanation text on the screen.'',
      ''    3. The final scene should show the complete, non-highlighted equation again.'',
      ''    4. The script should define a single Manim scene named 'EquationExplanation'.'',
      ''    5. Ensure the script is self-contained and ready to be executed by `manim`.'',
      ''    '']"

text \<open>
  The function returns its trace (the one model call) and either the exception of the call
  or the extracted script.
\<close>

definition generate_manim_script :: "env \<Rightarrow> json \<Rightarrow> json \<Rightarrow> event list \<times> (exn + string)" where
  "generate_manim_script env latex_equation explanations =
     (let response = generate_content env (prompt latex_equation explanations)
      in ([Generate (prompt latex_equation explanations) response],
          case response of
            Inl e \<Rightarrow> Inl e
          | Inr text \<Rightarrow>
              Inr (py_strip (py_replace ''```'' '''' (py_replace ''```python'' '''' text)))))"

subsection \<open>\<^verbatim>\<open>route.py\<close>: \<^verbatim>\<open>handler.do_POST\<close>\<close>

definition json_response :: "int \<Rightarrow> json \<Rightarrow> response" where
  "json_response code payload =
     \<lparr>status = code, resp_headers = [(''Content-type'', ''application/json'')],
      body = encode (json_dumps payload)\<rparr>"

definition install_command :: string where
  "install_command = ''pip install manim && manim-latex-downloader''"

definition script_filename :: "env \<Rightarrow> string" where
  "script_filename env = ''manim_script_'' @ uuid4 env @ ''.py''"

definition render_command :: "env \<Rightarrow> string" where
  "render_command env =
     ''manim -pql /home/daytona/'' @ script_filename env @ '' EquationExplanation''"

definition video_path :: "env \<Rightarrow> string" where
  "video_path env =
     ''/home/daytona/media/videos/'' @ py_replace ''.py'' '''' (script_filename env)
     @ ''/480p15/EquationExplanation.mp4''"

text \<open>
  The body of the \<^verbatim>\<open>try\<close> statement, steps 1 to 7. It returns the trace, the value of
  the variable \<^verbatim>\<open>sandbox\<close> when the body is left, and the exception that left it, if any.
\<close>

definition try_body :: "env \<Rightarrow> json \<Rightarrow> json \<Rightarrow> event list \<times> sandbox option \<times> exn option" where
  "try_body env latex_equation explanations =
     (case generate_manim_script env latex_equation explanations of
        (t1, Inl e) \<Rightarrow> (t1, None, Some e)
      | (t1, Inr manim_script_content) \<Rightarrow>
     (let t2 = t1 @ [Create (daytona_create env)] in
      case daytona_create env of
        Inl e \<Rightarrow> (t2, None, Some e)
      | Inr sandbox \<Rightarrow>
     (let installed = process_exec env sandbox install_command 300;
          t3 = t2 @ [Exec sandbox install_command 300 installed] in
      case installed of
        Inl e \<Rightarrow> (t3, Some sandbox, Some e)
      | Inr response \<Rightarrow>
      if exit_code response \<noteq> 0 then
        (t3, Some sandbox,
         Some (Raise Exception (''Failed to install Manim: '' @ result response)))
      else
     (let uploaded = fs_upload_file env sandbox (''/home/daytona/'' @ script_filename env)
                       (encode manim_script_content);
          t4 = t3 @ [Upload sandbox (''/home/daytona/'' @ script_filename env)
                       (encode manim_script_content) uploaded] in
      case uploaded of
        Inl e \<Rightarrow> (t4, Some sandbox, Some e)
      | Inr _ \<Rightarrow>
     (let rendered = process_exec env sandbox (render_command env) 300;
          t5 = t4 @ [Exec sandbox (render_command env) 300 rendered] in
      case rendered of
        Inl e \<Rightarrow> (t5, Some sandbox, Some e)
      | Inr response \<Rightarrow>
      if exit_code response \<noteq> 0 then
        (t5, Some sandbox,
         Some (Raise Exception (''Manim rendering failed: '' @ result response)))
      else
     (let downloaded = fs_download_file env sandbox (video_path env);
          t6 = t5 @ [Download sandbox (video_path env) downloaded] in
      case downloaded of
        Inl e \<Rightarrow> (t6, Some sandbox, Some e)
      | Inr video_content \<Rightarrow>
        (t6 @ [Send \<lparr>status = 200, resp_headers = [(''Content-type'', ''video/mp4'')],
                     body = video_content\<rparr>],
         Some sandbox, None)))))))"

text \<open>
  The \<^verbatim>\<open>try\<close> statement with its \<^verbatim>\<open>except Exception\<close> and \<^verbatim>\<open>finally\<close> clauses. An
  exception of \<^verbatim>\<open>daytona.remove\<close> is raised in the \<^verbatim>\<open>finally\<close> clause, outside every
  handler, and leaves \<^verbatim>\<open>do_POST\<close>. The test \<^verbatim>\<open>if sandbox:\<close> holds exactly when the
  variable was assigned, a sandbox object being truthy.
\<close>

definition try_statement :: "env \<Rightarrow> json \<Rightarrow> json \<Rightarrow> outcome" where
  "try_statement env latex_equation explanations =
     (case try_body env latex_equation explanations of (t, sandbox, raised) \<Rightarrow>
      let t' = (case raised of
                  None \<Rightarrow> t
                | Some e \<Rightarrow>
                    t @ [Send (json_response 500 (JObj [(''error'', JStr (exn_str e))]))])
      in case sandbox of
           None \<Rightarrow> \<lparr>trace = t', uncaught = None\<rparr>
         | Some sb \<Rightarrow>
             \<lparr>trace = t' @ [Remove sb (daytona_remove env sb)],
              uncaught = (case daytona_remove env sb of Inl e \<Rightarrow> Some e | Inr _ \<Rightarrow> None)\<rparr>)"

text \<open>An exception that leaves the handler before it has done anything.\<close>

definition propagate :: "exn \<Rightarrow> outcome" where
  "propagate e = \<lparr>trace = [], uncaught = Some e\<rparr>"

text \<open>
  Lines 36 to 41: the body is read and parsed and the two fields are looked up. Each of
  these steps can raise, outside the \<^verbatim>\<open>try\<close> statement.
\<close>

definition read_request :: "env \<Rightarrow> request \<Rightarrow> exn + json \<times> json" where
  "read_request env req =
     (case py_int (headers_get (headers req) ''Content-Length'') of
        Inl e \<Rightarrow> Inl e
      | Inr content_len \<Rightarrow>
     (case rfile_read (max_alloc env) (rfile req) content_len of
        Inl e \<Rightarrow> Inl e
      | Inr post_body \<Rightarrow>
     (case json_loads env post_body of
        Inl e \<Rightarrow> Inl e
      | Inr data \<Rightarrow>
     (case py_get data ''latex'' JNull of
        Inl e \<Rightarrow> Inl e
      | Inr latex_equation \<Rightarrow>
     (case py_get data ''explanations'' JNull of
        Inl e \<Rightarrow> Inl e
      | Inr explanations \<Rightarrow> Inr (latex_equation, explanations))))))"

text \<open>
  Lines 36 to 98. \<^verbatim>\<open>Daytona(api_key=...)\<close>, \<^verbatim>\<open>genai.configure(...)\<close>,
  \<^verbatim>\<open>genai.GenerativeModel(...)\<close> and \<^verbatim>\<open>CreateSandboxParams(...)\<close> build local objects
  and make no remote call: they leave nothing in the trace. Writing a response is taken
  not to raise.
\<close>

definition do_POST :: "env \<Rightarrow> request \<Rightarrow> outcome" where
  "do_POST env req =
     (case read_request env req of
        Inl e \<Rightarrow> propagate e
      | Inr (latex_equation, explanations) \<Rightarrow>
          if \<not> list_all truthy
                 [latex_equation, explanations,
                  environ_value (DAYTONA_API_KEY env), environ_value (GEMINI_API_KEY env)]
          then \<lparr>trace = [Send (json_response 400
                                 (JObj [(''error'', JStr ''Missing required data or API keys.'')]))],
                uncaught = None\<rparr>
          else try_statement env latex_equation explanations)"

subsection \<open>\<^verbatim>\<open>index.py\<close>: \<^verbatim>\<open>handler.do_POST\<close>\<close>

definition send_json :: "json \<Rightarrow> int \<Rightarrow> response" where
  "send_json payload status_code =
     \<lparr>status = status_code,
      resp_headers = [(''Content-Type'', ''application/json; charset=utf-8''),
                      (''Content-Length'', string_of_nat (length (encode (json_dumps payload))))],
      body = encode (json_dumps payload)\<rparr>"

definition echo_do_POST :: "env \<Rightarrow> request \<Rightarrow> outcome" where
  "echo_do_POST env req =
     (case py_int (Some (case headers_get (headers req) ''content-length'' of
                           None \<Rightarrow> ''0'' | Some v \<Rightarrow> v)) of
        Inl e \<Rightarrow> propagate e
      | Inr content_length \<Rightarrow>
     (case (if content_length \<noteq> 0
            then rfile_read (max_alloc env) (rfile req) content_length else Inr []) of
        Inl e \<Rightarrow> propagate e
      | Inr raw_body \<Rightarrow>
         if raw_body = [] then
           \<lparr>trace = [Send (send_json (JObj [(''error'', JStr ''Empty request body'')]) 400)],
            uncaught = None\<rparr>
         else
     (case json_loads_utf8 env raw_body of
        Inl e \<Rightarrow>
          if exn_cls e = JSONDecodeError then
            \<lparr>trace = [Send (send_json (JObj [(''error'', JStr ''Invalid JSON payload'')]) 400)],
             uncaught = None\<rparr>
          else propagate e
      | Inr payload \<Rightarrow>
     (case py_get payload ''expression'' (JStr '''') of
        Inl e \<Rightarrow> propagate e
      | Inr expression \<Rightarrow>
     (case py_len expression of
        Inl e \<Rightarrow> propagate e
      | Inr n \<Rightarrow>
          \<lparr>trace = [Send (send_json (JObj [(''received'', expression), (''length'', JInt n)])
                             200)],
           uncaught = None\<rparr>)))))"

subsection \<open>Reading a trace\<close>

text \<open>
  The handles given to \<^verbatim>\<open>daytona.remove\<close>, the handles \<^verbatim>\<open>daytona.create\<close> returned,
  and the responses written, each in the order of the trace.
\<close>

fun removed :: "event list \<Rightarrow> sandbox list" where
  "removed [] = []"
| "removed (Remove sb r # t) = sb # removed t"
| "removed (ev # t) = removed t"

fun provisioned :: "event list \<Rightarrow> sandbox list" where
  "provisioned [] = []"
| "provisioned (Create (Inr sb) # t) = sb # provisioned t"
| "provisioned (ev # t) = provisioned t"

fun responses :: "event list \<Rightarrow> response list" where
  "responses [] = []"
| "responses (Send r # t) = r # responses t"
| "responses (ev # t) = responses t"

subsection \<open>A concrete world\<close>

text \<open>
  The scenario of the specification: the request for \<open>E=mc^2\<close>, valid credentials and
  collaborators that all succeed. \<open>example_loads\<close> is \<^verbatim>\<open>json.loads\<close> on the request
  bodies used below (three JSON objects, a JSON array, and input that is not JSON at its
  first character, such as the empty body); it is not \<^verbatim>\<open>json.loads\<close> elsewhere.
\<close>

definition example_body :: bytes where
  \<open>example_body =
     ''{"latex": "E=mc^2", "explanations": "E is energy, m is mass, c is speed of light"}''\<close>

definition body_without_explanations :: bytes where
  \<open>body_without_explanations = ''{"latex": "E=mc^2"}''\<close>

definition body_empty_latex :: bytes where
  \<open>body_empty_latex = ''{"latex": "", "explanations": "E is energy"}''\<close>

definition body_array :: bytes where
  "body_array = ''[1, 2]''"

definition example_loads :: "bytes \<Rightarrow> exn + json" where
  "example_loads b =
     (if b = example_body then
        Inr (JObj [(''latex'', JStr ''E=mc^2''),
                   (''explanations'', JStr ''E is energy, m is mass, c is speed of light'')])
      else if b = body_without_explanations then Inr (JObj [(''latex'', JStr ''E=mc^2'')])
      else if b = body_empty_latex then
        Inr (JObj [(''latex'', JStr ''''), (''explanations'', JStr ''E is energy'')])
      else if b = body_array then Inr (JArr [JInt 1, JInt 2])
      else Inl (Raise JSONDecodeError ''Expecting value: line 1 column 1 (char 0)''))"

definition example_answer :: string where
  "example_answer =
     ''```python'' @ [CHR 0x0A] @ ''from manim import *'' @ [CHR 0x0A] @ ''```'' @ [CHR 0x0A]"

definition example_video :: bytes where
  "example_video = [CHR 0x00, CHR 0x00, CHR 0x00, CHR 0x18] @ ''ftypmp42''"

definition example_env :: env where
  "example_env =
     \<lparr>DAYTONA_API_KEY = Some ''dtn_key'', GEMINI_API_KEY = Some ''gem_key'',
      json_loads = example_loads, json_loads_utf8 = example_loads,
      generate_content = (\<lambda>p. Inr example_answer),
      uuid4 = ''0b2c9c4e-5d3a-4f1e-9a7b-3c2d1e0f4a5b'',
      max_alloc = 2147483648,
      daytona_create = Inr (Sandbox ''sandbox-1''),
      process_exec = (\<lambda>sb cmd timeout. Inr \<lparr>exit_code = 0, result = ''''\<rparr>),
      fs_upload_file = (\<lambda>sb path content. Inr ()),
      fs_download_file = (\<lambda>sb path. Inr example_video),
      daytona_remove = (\<lambda>sb. Inr ())\<rparr>"

definition example_request :: request where
  "example_request = \<lparr>headers = [(''Content-Length'', ''82'')], rfile = example_body\<rparr>"

text \<open>
  The request has passed lines 36 to 48: it was read without an exception, with these two
  fields, and both fields and both credentials are truthy.
\<close>

definition accepted :: "env \<Rightarrow> request \<Rightarrow> json \<Rightarrow> json \<Rightarrow> bool" where
  "accepted env req latex_equation explanations =
     (read_request env req = Inr (latex_equation, explanations)
      \<and> list_all truthy
            [latex_equation, explanations,
             environ_value (DAYTONA_API_KEY env), environ_value (GEMINI_API_KEY env)])"

text \<open>Variants of the concrete world in which one collaborator answers differently.\<close>

definition env_remove_fails :: env where
  "env_remove_fails =
     example_env\<lparr>daytona_remove := (\<lambda>sb. Inl (Raise LibraryError ''Failed to remove sandbox''))\<rparr>"

definition env_empty_video :: env where
  "env_empty_video = example_env\<lparr>fs_download_file := (\<lambda>sb path. Inr [])\<rparr>"

definition pip_output :: string where
  "pip_output = ''ERROR: No matching distribution found for manim''"

definition env_install_fails :: env where
  "env_install_fails =
     example_env\<lparr>process_exec := (\<lambda>sb cmd timeout. Inr \<lparr>exit_code = 1, result = pip_output\<rparr>)\<rparr>"

text \<open>Other requests.\<close>

definition request_no_body :: request where
  "request_no_body = \<lparr>headers = [(''Content-Length'', ''0'')], rfile = []\<rparr>"

definition request_malformed :: request where
  "request_malformed = \<lparr>headers = [(''Content-Length'', ''8'')], rfile = ''not json''\<rparr>"

definition request_no_length :: request where
  "request_no_length = \<lparr>headers = [(''Content-Type'', ''application/json'')], rfile = example_body\<rparr>"

definition request_bad_length :: request where
  "request_bad_length = \<lparr>headers = [(''Content-Length'', ''eighty-two'')], rfile = example_body\<rparr>"

definition request_without_explanations :: request where
  "request_without_explanations =
     \<lparr>headers = [(''Content-Length'', ''19'')], rfile = body_without_explanations\<rparr>"

definition request_empty_latex :: request where
  "request_empty_latex = \<lparr>headers = [(''Content-Length'', ''44'')], rfile = body_empty_latex\<rparr>"

definition request_array :: request where
  "request_array = \<lparr>headers = [(''Content-Length'', ''6'')], rfile = body_array\<rparr>"

text \<open>A length with the separator 28 before its digits.\<close>

definition request_separator_length :: request where
  "request_separator_length =
     \<lparr>headers = [(''Content-Length'', CHR 0x1C # ''82'')], rfile = example_body\<rparr>"

subsection \<open>Notions the claims are stated with\<close>

text \<open>The one response of the validation at lines 43 to 48, as bytes.\<close>

definition missing_response :: response where
  \<open>missing_response =
     \<lparr>status = 400, resp_headers = [(''Content-type'', ''application/json'')],
      body = ''{"error": "Missing required data or API keys."}''\<rparr>\<close>

text \<open>A response with status 500 and the JSON object of one error message, as bytes.\<close>

definition error_response :: "string \<Rightarrow> response" where
  \<open>error_response m =
     \<lparr>status = 500, resp_headers = [(''Content-type'', ''application/json'')],
      body = ''{"error": '' @ dumps_str m @ ''}''\<rparr>\<close>

text \<open>
  The response that is due after a call, read from the call and its result alone. After a
  call that raised: 500 with the message of the exception. After a command that ended
  with a non-zero exit code: 500 with the message for that command and its captured
  output. After a download that returned: 200 with the bytes as a video. After any other
  call the run goes on and no response is due.
\<close>

fun reported :: "event \<Rightarrow> response option" where
  "reported (Generate p (Inl e)) = Some (error_response (exn_str e))"
| "reported (Create (Inl e)) = Some (error_response (exn_str e))"
| "reported (Exec sb cmd t (Inl e)) = Some (error_response (exn_str e))"
| "reported (Exec sb cmd t (Inr r)) =
     (if exit_code r = 0 then None
      else Some (error_response
                  ((if cmd = install_command then ''Failed to install Manim: ''
                    else ''Manim rendering failed: '') @ result r)))"
| "reported (Upload sb p b (Inl e)) = Some (error_response (exn_str e))"
| "reported (Download sb p (Inl e)) = Some (error_response (exn_str e))"
| "reported (Download sb p (Inr video)) =
     Some \<lparr>status = 200, resp_headers = [(''Content-type'', ''video/mp4'')], body = video\<rparr>"
| "reported ev = None"

text \<open>The calls of the model and the provisioning calls in a trace.\<close>

fun is_model_call :: "event \<Rightarrow> bool" where
  "is_model_call (Generate p r) = True"
| "is_model_call ev = False"

fun is_provisioning_call :: "event \<Rightarrow> bool" where
  "is_provisioning_call (Create r) = True"
| "is_provisioning_call ev = False"

text \<open>A file name with its \<^verbatim>\<open>.py\<close> suffix removed, when it has one.\<close>

definition remove_py_suffix :: "string \<Rightarrow> string" where
  "remove_py_suffix s = (if suffix ''.py'' s then take (length s - 3) s else s)"

text \<open>
  The form of \<^verbatim>\<open>str(uuid.uuid4())\<close>: 36 characters, lower-case hexadecimal digits in
  groups of 8, 4, 4, 4 and 12 separated by hyphens, with the version digit 4 and a variant
  digit among 8, 9, a, b.
\<close>

definition is_hex_digit :: "char \<Rightarrow> bool" where
  "is_hex_digit c = (c \<in> set ''0123456789abcdef'')"

definition is_uuid4 :: "string \<Rightarrow> bool" where
  "is_uuid4 s =
     (length s = 36
      \<and> list_all (\<lambda>i. if i \<in> {8, 13, 18, 23} then s ! i = CHR ''-'' else is_hex_digit (s ! i))
           [0..<36]
      \<and> s ! 14 = CHR ''4'' \<and> s ! 19 \<in> set ''89ab'')"

text \<open>The number of backticks a string starts with.\<close>

definition backticks :: "string \<Rightarrow> nat" where
  "backticks s = length (takeWhile (\<lambda>c. c = CHR 0x60) s)"

section \<open>Properties\<close>

subsection \<open>Evaluating the concrete world\<close>

lemmas builtin_defs =
  headers_get_def lower_char_def py_int_def is_int_literal_def unsigned_part_def int_strip_def
  int_isspace_def py_strip_def py_isspace_def is_digit_def int_max_str_digits_def digits_value_def digit_val_def
  rfile_read_def py_get_def environ_value_def py_str_def encode_def encode_char_def
  dumps_str_def dumps_char_def hex2_def hex_char_def

lemmas example_defs =
  example_env_def example_request_def example_body_def example_loads_def
  body_without_explanations_def body_empty_latex_def body_array_def example_answer_def example_video_def

lemmas request_defs =
  request_no_body_def request_malformed_def request_no_length_def request_bad_length_def
  request_without_explanations_def request_empty_latex_def request_array_def
  request_separator_length_def

lemma example_read_request:
  "read_request example_env example_request =
     Inr (JStr ''E=mc^2'', JStr ''E is energy, m is mass, c is speed of light'')"
  by (simp add: read_request_def example_defs builtin_defs)

lemma example_script:
  "generate_manim_script example_env l x =
     ([Generate (prompt l x) (Inr example_answer)], Inr ''from manim import *'')"
  by (simp add: generate_manim_script_def example_defs builtin_defs)

lemma example_run:
  "do_POST example_env example_request =
     \<lparr>trace =
        [Generate (prompt (JStr ''E=mc^2'') (JStr ''E is energy, m is mass, c is speed of light''))
           (Inr example_answer),
         Create (Inr (Sandbox ''sandbox-1'')),
         Exec (Sandbox ''sandbox-1'') ''pip install manim && manim-latex-downloader'' 300
           (Inr \<lparr>exit_code = 0, result = ''''\<rparr>),
         Upload (Sandbox ''sandbox-1'')
           ''/home/daytona/manim_script_0b2c9c4e-5d3a-4f1e-9a7b-3c2d1e0f4a5b.py''
           ''from manim import *'' (Inr ()),
         Exec (Sandbox ''sandbox-1'')
           ''manim -pql /home/daytona/manim_script_0b2c9c4e-5d3a-4f1e-9a7b-3c2d1e0f4a5b.py EquationExplanation''
           300 (Inr \<lparr>exit_code = 0, result = ''''\<rparr>),
         Download (Sandbox ''sandbox-1'')
           ''/home/daytona/media/videos/manim_script_0b2c9c4e-5d3a-4f1e-9a7b-3c2d1e0f4a5b/480p15/EquationExplanation.mp4''
           (Inr example_video),
         Send \<lparr>status = 200, resp_headers = [(''Content-type'', ''video/mp4'')],
               body = example_video\<rparr>,
         Remove (Sandbox ''sandbox-1'') (Inr ())],
      uncaught = None\<rparr>"
  unfolding do_POST_def example_read_request
  by (simp add: try_statement_def try_body_def example_script)
     (simp add: example_env_def install_command_def script_filename_def render_command_def
        video_path_def encode_def encode_char_def environ_value_def Let_def)

lemma do_POST_accepted:
  "accepted env req l x \<Longrightarrow> do_POST env req = try_statement env l x"
  by (simp add: accepted_def do_POST_def)

lemma example_accepted:
  "accepted example_env example_request
     (JStr ''E=mc^2'') (JStr ''E is energy, m is mass, c is speed of light'')"
  by (simp add: accepted_def example_read_request) (simp add: example_env_def environ_value_def)

lemma accepted_cong:
  assumes "json_loads env' = json_loads env"
    and "DAYTONA_API_KEY env' = DAYTONA_API_KEY env"
    and "GEMINI_API_KEY env' = GEMINI_API_KEY env"
    and "max_alloc env' = max_alloc env"
    and "accepted env req l x"
  shows "accepted env' req l x"
proof -
  have "read_request env' req = read_request env req"
    unfolding read_request_def assms(1) assms(4) ..
  with assms(2-) show ?thesis
    by (simp add: accepted_def)
qed

lemma generate_manim_script_cong:
  "generate_content env' = generate_content env
   \<Longrightarrow> generate_manim_script env' l x = generate_manim_script env l x"
  by (simp add: generate_manim_script_def)

subsection \<open>Observations on traces\<close>

lemma removed_append: "removed (t @ u) = removed t @ removed u"
  by (induction t rule: removed.induct) simp_all

lemma provisioned_append: "provisioned (t @ u) = provisioned t @ provisioned u"
  by (induction t rule: provisioned.induct) simp_all

lemma responses_append: "responses (t @ u) = responses t @ responses u"
  by (induction t rule: responses.induct) simp_all

lemmas observer_append = removed_append provisioned_append responses_append

text \<open>What the body of the try statement leaves behind.\<close>

lemma try_body_observed:
  assumes "try_body env l x = (t, sbo, r)"
  shows "removed t = []"
    and "provisioned t = (case sbo of None \<Rightarrow> [] | Some sb \<Rightarrow> [sb])"
    and "responses t = (case r of None \<Rightarrow> responses t | Some e \<Rightarrow> [])"
    and "length (responses t) = (case r of None \<Rightarrow> 1 | Some e \<Rightarrow> 0)"
  using assms
  unfolding try_body_def generate_manim_script_def Let_def
  by (auto split: sum.splits if_splits prod.splits simp: observer_append)

lemma try_statement_removed:
  "removed (trace (try_statement env l x)) = provisioned (trace (try_statement env l x))"
  "length (removed (trace (try_statement env l x))) \<le> 1"
proof -
  obtain t sbo r where b: "try_body env l x = (t, sbo, r)"
    by (cases "try_body env l x")
  show "removed (trace (try_statement env l x)) = provisioned (trace (try_statement env l x))"
    using try_body_observed(1,2)[OF b]
    by (auto simp: try_statement_def b Let_def observer_append split: option.splits)
  show "length (removed (trace (try_statement env l x))) \<le> 1"
    using try_body_observed(1,2)[OF b]
    by (auto simp: try_statement_def b Let_def observer_append split: option.splits)
qed

subsection \<open>The bytes of an error body\<close>

lemma of_char_hex_char: "d < 16 \<Longrightarrow> (of_char (hex_char d) :: nat) < 128"
  by (simp add: hex_char_def)

lemma hex2_ascii: "ch \<in> set (hex2 c) \<Longrightarrow> (of_char ch :: nat) < 128"
proof -
  have "(of_char c :: nat) < 256" by simp
  then have "(of_char c :: nat) div 16 < 16" "(of_char c :: nat) mod 16 < 16" by arith+
  then show "ch \<in> set (hex2 c) \<Longrightarrow> (of_char ch :: nat) < 128"
    by (auto simp: hex2_def of_char_hex_char)
qed

lemma dumps_char_ascii: "ch \<in> set (dumps_char c) \<Longrightarrow> (of_char ch :: nat) < 128"
  by (auto simp: dumps_char_def dest: hex2_ascii split: if_splits)

lemma encode_ascii: "(\<And>ch. ch \<in> set s \<Longrightarrow> (of_char ch :: nat) < 128) \<Longrightarrow> encode s = s"
  by (induction s) (simp_all add: encode_def encode_char_def)

lemma encode_error_body:
  \<open>encode (json_dumps (JObj [(''error'', JStr m)])) = ''{"error": '' @ dumps_str m @ ''}''\<close>
proof -
  have d: \<open>json_dumps (JObj [(''error'', JStr m)]) = ''{"error": '' @ dumps_str m @ ''}''\<close>
    by (simp add: dumps_str_def dumps_char_def)
  have "encode (''{'' @ [CHR 0x22] @ ''error'' @ [CHR 0x22] @ '': '' @ dumps_str m @ ''}'')
        = ''{'' @ [CHR 0x22] @ ''error'' @ [CHR 0x22] @ '': '' @ dumps_str m @ ''}''"
    by (rule encode_ascii) (auto simp: dumps_str_def dest: dumps_char_ascii)
  then show ?thesis unfolding d by simp
qed

lemma json_response_500:
  "json_response 500 (JObj [(''error'', JStr m)]) = error_response m"
  by (simp add: json_response_def encode_error_body error_response_def del: json_dumps.simps)

subsection \<open>Cleanup\<close>

text \<open>
  C1. In every call of \<^verbatim>\<open>do_POST\<close>, whatever the request and whatever the collaborators
  answer, the handles given to \<^verbatim>\<open>daytona.remove\<close> are exactly the handles that
  \<^verbatim>\<open>daytona.create\<close> returned, and there is at most one: the sandbox is destroyed once
  when provisioning succeeded and never otherwise, whichever later stage failed.
\<close>

theorem destroy_exactly_once_iff_provisioned:
  "removed (trace (do_POST env req)) = provisioned (trace (do_POST env req))
   \<and> length (removed (trace (do_POST env req))) \<le> 1
   \<and> (length (removed (trace (do_POST env req))) = 1)
       = (provisioned (trace (do_POST env req)) \<noteq> [])"
proof -
  have a: "removed (trace (do_POST env req)) = provisioned (trace (do_POST env req))"
    by (simp add: do_POST_def propagate_def try_statement_removed(1) split: sum.splits prod.splits)
  have b: "length (removed (trace (do_POST env req))) \<le> 1"
    using try_statement_removed(2)
    by (auto simp: do_POST_def propagate_def split: sum.splits prod.splits)
  from b have "(length (removed (trace (do_POST env req))) = 1)
       = (removed (trace (do_POST env req)) \<noteq> [])"
    by (cases "removed (trace (do_POST env req))") auto
  with a b show ?thesis by simp
qed

theorem destroy_exactly_once_iff_provisioned_witness:
  "removed (trace (do_POST example_env example_request)) = [Sandbox ''sandbox-1'']
   \<and> provisioned (trace (do_POST example_env example_request)) = [Sandbox ''sandbox-1'']"
  using destroy_exactly_once_iff_provisioned [of example_env example_request]
  by (simp add: example_run)

text \<open>The request is read and the pipeline runs without a look at \<open>daytona_remove\<close>.\<close>

lemma read_request_remove [simp]:
  "read_request (env\<lparr>daytona_remove := f\<rparr>) req = read_request env req"
  by (simp add: read_request_def split: sum.splits)

lemma try_body_remove [simp]:
  "try_body (env\<lparr>daytona_remove := f\<rparr>) l x = try_body env l x"
  by (simp add: try_body_def generate_manim_script_def script_filename_def render_command_def
      video_path_def Let_def split: sum.splits prod.splits)

lemma render_not_install: "render_command env \<noteq> install_command"
  by (simp add: render_command_def install_command_def)

text \<open>
  When the body of the try statement is left with a sandbox, the response (its own 200, or
  the 500 of the except clause) is the one due after the last call made.
\<close>

lemma try_body_reported_last:
  assumes "try_body env l x = (t, Some sb, r)"
    and "t' = (case r of None \<Rightarrow> t
               | Some e \<Rightarrow> t @ [Send (json_response 500 (JObj [(''error'', JStr (exn_str e))]))])"
  shows "2 \<le> length t' \<and> (\<exists>resp. last t' = Send resp \<and> reported (last (butlast t')) = Some resp)"
  using assms
  unfolding try_body_def generate_manim_script_def Let_def
  by (auto split: sum.splits if_splits prod.splits
           simp: json_response_500 butlast_append render_not_install
           simp del: json_dumps.simps)

lemma try_body_reported:
  assumes "try_body env l x = (t, Some sb, r)"
  shows "\<exists>pre call resp. reported call = Some resp
           \<and> (case r of None \<Rightarrow> t
               | Some e \<Rightarrow> t @ [Send (json_response 500 (JObj [(''error'', JStr (exn_str e))]))])
             = pre @ [call, Send resp]"
proof -
  define t' where "t' = (case r of None \<Rightarrow> t
     | Some e \<Rightarrow> t @ [Send (json_response 500 (JObj [(''error'', JStr (exn_str e))]))])"
  from try_body_reported_last [OF assms t'_def] obtain resp where
    len: "2 \<le> length t'" and l: "last t' = Send resp"
    and r: "reported (last (butlast t')) = Some resp"
    by blast
  from len have ne: "t' \<noteq> []" "butlast t' \<noteq> []"
    by (auto simp: length_butlast dest: arg_cong [where f = length])
  have "t' = butlast t' @ [last t']"
    using ne(1) by simp
  also have "butlast t' = butlast (butlast t') @ [last (butlast t')]"
    using ne(2) by simp
  finally have "t' = butlast (butlast t') @ [last (butlast t'), Send resp]"
    using l by simp
  with r show ?thesis
    unfolding t'_def by blast
qed

lemma try_body_removed_set:
  "try_body env l x = (t, sbo, r) \<Longrightarrow> Remove sb res \<notin> set t"
  unfolding try_body_def generate_manim_script_def Let_def
  by (auto split: sum.splits if_splits prod.splits)

lemma try_statement_remove_raises:
  assumes "Remove sb (Inl e) \<in> set (trace (try_statement env l x))"
  shows "uncaught (try_statement env l x) = Some e
     \<and> (\<exists>pre call resp. reported call = Some resp
          \<and> (\<forall>f. trace (try_statement (env\<lparr>daytona_remove := f\<rparr>) l x)
                  = pre @ [call, Send resp, Remove sb (f sb)]))"
proof -
  obtain t sbo r where b: "try_body env l x = (t, sbo, r)"
    by (cases "try_body env l x")
  note nr = try_body_removed_set[OF b]
  show ?thesis
  proof (cases sbo)
    case None
    with assms b nr show ?thesis
      by (auto simp: try_statement_def Let_def json_response_def split: option.splits)
  next
    case (Some sb')
    from try_body_reported[OF b[unfolded Some]] obtain pre call resp where
      rep: "reported call = Some resp" and
      p: "(case r of None \<Rightarrow> t
           | Some e \<Rightarrow> t @ [Send (json_response 500 (JObj [(''error'', JStr (exn_str e))]))])
          = pre @ [call, Send resp]" by blast
    have tr: "\<And>f. trace (try_statement (env\<lparr>daytona_remove := f\<rparr>) l x)
                = pre @ [call, Send resp, Remove sb' (f sb')]"
      using p by (simp add: try_statement_def b Some Let_def)
    have tr0: "trace (try_statement env l x)
                = pre @ [call, Send resp, Remove sb' (daytona_remove env sb')]"
      using p by (simp add: try_statement_def b Some Let_def)
    have "Remove sb (Inl e) \<notin> set (pre @ [call])"
      using nr[of sb "Inl e"] p by (cases r) (auto simp: json_response_def)
    with assms tr0 have eq: "sb' = sb" "daytona_remove env sb = Inl e" by auto
    have "uncaught (try_statement env l x) = Some e"
      using eq by (simp add: try_statement_def b Some Let_def)
    with tr eq rep show ?thesis by blast
  qed
qed

text \<open>
  C3, as amended. When \<^verbatim>\<open>daytona.remove\<close> raises, the exception is not caught: it
  leaves \<^verbatim>\<open>do_POST\<close>. The response was written just before, and it is the response due
  after the last call of the run (\<open>reported\<close>): 200 with the video when the download
  returned, 500 with the message of the earlier failure otherwise. It is the response the
  run sends whatever \<^verbatim>\<open>daytona.remove\<close> answers: the trace is the same up to the result
  of that last call.
\<close>

theorem destroy_error_escapes_after_response:
  assumes "Remove sb (Inl e) \<in> set (trace (do_POST env req))"
  shows "uncaught (do_POST env req) = Some e
     \<and> (\<exists>pre call resp. reported call = Some resp
          \<and> (\<forall>f. trace (do_POST (env\<lparr>daytona_remove := f\<rparr>) req)
                  = pre @ [call, Send resp, Remove sb (f sb)]))"
proof (cases "read_request env req")
  case (Inl err)
  with assms show ?thesis by (simp add: do_POST_def propagate_def)
next
  case (Inr lx)
  obtain l x where lx: "lx = (l, x)" by (cases lx)
  show ?thesis
  proof (cases "list_all truthy [l, x, environ_value (DAYTONA_API_KEY env),
                                 environ_value (GEMINI_API_KEY env)]")
    case False
    with assms Inr lx show ?thesis by (auto simp: do_POST_def)
  next
    case True
    have run: "\<And>f. do_POST (env\<lparr>daytona_remove := f\<rparr>) req
                 = try_statement (env\<lparr>daytona_remove := f\<rparr>) l x"
      using True Inr lx by (simp add: do_POST_def)
    have run0: "do_POST env req = try_statement env l x"
      using True Inr lx by (simp add: do_POST_def)
    from try_statement_remove_raises[of sb e env l x] assms
    show ?thesis unfolding run run0 by simp
  qed
qed

lemma remove_fails_run:
  "do_POST env_remove_fails example_request =
     \<lparr>trace =
        [Generate (prompt (JStr ''E=mc^2'') (JStr ''E is energy, m is mass, c is speed of light''))
           (Inr example_answer),
         Create (Inr (Sandbox ''sandbox-1'')),
         Exec (Sandbox ''sandbox-1'') ''pip install manim && manim-latex-downloader'' 300
           (Inr \<lparr>exit_code = 0, result = ''''\<rparr>),
         Upload (Sandbox ''sandbox-1'')
           ''/home/daytona/manim_script_0b2c9c4e-5d3a-4f1e-9a7b-3c2d1e0f4a5b.py''
           ''from manim import *'' (Inr ()),
         Exec (Sandbox ''sandbox-1'')
           ''manim -pql /home/daytona/manim_script_0b2c9c4e-5d3a-4f1e-9a7b-3c2d1e0f4a5b.py EquationExplanation''
           300 (Inr \<lparr>exit_code = 0, result = ''''\<rparr>),
         Download (Sandbox ''sandbox-1'')
           ''/home/daytona/media/videos/manim_script_0b2c9c4e-5d3a-4f1e-9a7b-3c2d1e0f4a5b/480p15/EquationExplanation.mp4''
           (Inr example_video),
         Send \<lparr>status = 200, resp_headers = [(''Content-type'', ''video/mp4'')],
               body = example_video\<rparr>,
         Remove (Sandbox ''sandbox-1'') (Inl (Raise LibraryError ''Failed to remove sandbox''))],
      uncaught = Some (Raise LibraryError ''Failed to remove sandbox'')\<rparr>"
proof -
  have rr: "read_request env_remove_fails example_request = read_request example_env example_request"
    by (simp add: env_remove_fails_def)
  have gs: "generate_manim_script env_remove_fails l x = generate_manim_script example_env l x" for l x
    by (simp add: env_remove_fails_def generate_manim_script_def)
  show ?thesis
    unfolding do_POST_def rr example_read_request
    by (simp add: try_statement_def try_body_def gs example_script)
       (simp add: env_remove_fails_def example_env_def install_command_def script_filename_def
          render_command_def video_path_def encode_def encode_char_def environ_value_def Let_def)
qed

theorem destroy_error_escapes_after_response_witness:
  "Remove (Sandbox ''sandbox-1'') (Inl (Raise LibraryError ''Failed to remove sandbox''))
     \<in> set (trace (do_POST env_remove_fails example_request))
   \<and> uncaught (do_POST env_remove_fails example_request)
     = Some (Raise LibraryError ''Failed to remove sandbox'')
   \<and> (\<exists>pre call resp. reported call = Some resp
        \<and> (\<forall>f. trace (do_POST (env_remove_fails\<lparr>daytona_remove := f\<rparr>) example_request)
                = pre @ [call, Send resp,
                         Remove (Sandbox ''sandbox-1'') (f (Sandbox ''sandbox-1''))]))"
proof -
  have h: "Remove (Sandbox ''sandbox-1'') (Inl (Raise LibraryError ''Failed to remove sandbox''))
     \<in> set (trace (do_POST env_remove_fails example_request))"
    by (simp add: remove_fails_run)
  from destroy_error_escapes_after_response [OF h] h show ?thesis by simp
qed

text \<open>
  C3 as stated fails: in the concrete world with a failing \<^verbatim>\<open>daytona.remove\<close> the video
  is sent with status 200 and the cleanup error then leaves the handler uncaught, so it is
  not recovered locally.
\<close>

theorem destroy_error_not_recovered:
  "responses (trace (do_POST env_remove_fails example_request))
     = [\<lparr>status = 200, resp_headers = [(''Content-type'', ''video/mp4'')], body = example_video\<rparr>]
   \<and> uncaught (do_POST env_remove_fails example_request)
     = Some (Raise LibraryError ''Failed to remove sandbox'')"
  by (simp add: remove_fails_run)

subsection \<open>The stages of a run\<close>

lemma try_statement_success:
  assumes "snd (generate_manim_script env l x) = Inr script"
    and "daytona_create env = Inr sb"
    and "process_exec env sb install_command 300 = Inr r1" and "exit_code r1 = 0"
    and "fs_upload_file env sb (''/home/daytona/'' @ script_filename env) (encode script) = Inr ()"
    and "process_exec env sb (render_command env) 300 = Inr r2" and "exit_code r2 = 0"
    and "fs_download_file env sb (video_path env) = Inr video"
  shows "trace (try_statement env l x) =
     fst (generate_manim_script env l x) @
     [Create (Inr sb),
      Exec sb install_command 300 (Inr r1),
      Upload sb (''/home/daytona/'' @ script_filename env) (encode script) (Inr ()),
      Exec sb (render_command env) 300 (Inr r2),
      Download sb (video_path env) (Inr video),
      Send \<lparr>status = 200, resp_headers = [(''Content-type'', ''video/mp4'')], body = video\<rparr>,
      Remove sb (daytona_remove env sb)]"
proof -
  obtain g where g: "generate_manim_script env l x = (g, Inr script)"
    using assms(1) by (cases "generate_manim_script env l x") simp
  show ?thesis
    using assms(2-) by (simp add: try_statement_def try_body_def g Let_def)
qed

lemma example_video_path:
  "uuid4 env = ''0b2c9c4e-5d3a-4f1e-9a7b-3c2d1e0f4a5b'' \<Longrightarrow> video_path env =
     ''/home/daytona/media/videos/manim_script_0b2c9c4e-5d3a-4f1e-9a7b-3c2d1e0f4a5b/480p15/EquationExplanation.mp4''"
  by (simp add: video_path_def script_filename_def)

text \<open>
  C5, as amended. When the request is accepted and generation, provisioning, installation,
  upload, rendering and download all succeed, the handler makes exactly these calls in
  this order: the response has status 200, content type \<^verbatim>\<open>video/mp4\<close> and as body the
  bytes the download returned (so it is non-empty exactly when these are), and
  \<^verbatim>\<open>daytona.remove\<close> is called after the download and after the response.
\<close>

theorem success_response_then_destroy:
  assumes "accepted env req l x"
    and "snd (generate_manim_script env l x) = Inr script"
    and "daytona_create env = Inr sb"
    and "process_exec env sb install_command 300 = Inr r1" and "exit_code r1 = 0"
    and "fs_upload_file env sb (''/home/daytona/'' @ script_filename env) (encode script) = Inr ()"
    and "process_exec env sb (render_command env) 300 = Inr r2" and "exit_code r2 = 0"
    and "fs_download_file env sb (video_path env) = Inr video"
  shows "trace (do_POST env req) =
     fst (generate_manim_script env l x) @
     [Create (Inr sb),
      Exec sb install_command 300 (Inr r1),
      Upload sb (''/home/daytona/'' @ script_filename env) (encode script) (Inr ()),
      Exec sb (render_command env) 300 (Inr r2),
      Download sb (video_path env) (Inr video),
      Send \<lparr>status = 200, resp_headers = [(''Content-type'', ''video/mp4'')], body = video\<rparr>,
      Remove sb (daytona_remove env sb)]"
  unfolding do_POST_accepted [OF assms(1)]
  by (rule try_statement_success [OF assms(2-)])

theorem success_response_then_destroy_witness:
  "trace (do_POST example_env example_request) =
     [Generate (prompt (JStr ''E=mc^2'') (JStr ''E is energy, m is mass, c is speed of light''))
        (Inr example_answer),
      Create (Inr (Sandbox ''sandbox-1'')),
      Exec (Sandbox ''sandbox-1'') install_command 300 (Inr \<lparr>exit_code = 0, result = ''''\<rparr>),
      Upload (Sandbox ''sandbox-1'')
        ''/home/daytona/manim_script_0b2c9c4e-5d3a-4f1e-9a7b-3c2d1e0f4a5b.py''
        ''from manim import *'' (Inr ()),
      Exec (Sandbox ''sandbox-1'')
        ''manim -pql /home/daytona/manim_script_0b2c9c4e-5d3a-4f1e-9a7b-3c2d1e0f4a5b.py EquationExplanation''
        300 (Inr \<lparr>exit_code = 0, result = ''''\<rparr>),
      Download (Sandbox ''sandbox-1'')
        ''/home/daytona/media/videos/manim_script_0b2c9c4e-5d3a-4f1e-9a7b-3c2d1e0f4a5b/480p15/EquationExplanation.mp4''
        (Inr example_video),
      Send \<lparr>status = 200, resp_headers = [(''Content-type'', ''video/mp4'')],
            body = example_video\<rparr>,
      Remove (Sandbox ''sandbox-1'') (Inr ())]"
proof -
  let ?l = "JStr ''E=mc^2''" and ?x = "JStr ''E is energy, m is mass, c is speed of light''"
  have gen: "snd (generate_manim_script example_env ?l ?x) = Inr ''from manim import *''"
    by (simp add: example_script)
  have create: "daytona_create example_env = Inr (Sandbox ''sandbox-1'')"
    by (simp add: example_env_def)
  have install: "process_exec example_env (Sandbox ''sandbox-1'') install_command 300
                   = Inr \<lparr>exit_code = 0, result = ''''\<rparr>"
    by (simp add: example_env_def)
  have upload: "fs_upload_file example_env (Sandbox ''sandbox-1'')
                  (''/home/daytona/'' @ script_filename example_env)
                  (encode ''from manim import *'') = Inr ()"
    by (simp add: example_env_def)
  have render: "process_exec example_env (Sandbox ''sandbox-1'') (render_command example_env) 300
                   = Inr \<lparr>exit_code = 0, result = ''''\<rparr>"
    by (simp add: example_env_def)
  have download: "fs_download_file example_env (Sandbox ''sandbox-1'') (video_path example_env)
                   = Inr example_video"
    by (simp add: example_env_def)
  have u: "uuid4 example_env = ''0b2c9c4e-5d3a-4f1e-9a7b-3c2d1e0f4a5b''"
    by (simp add: example_env_def)
  show ?thesis
    using success_response_then_destroy
      [OF example_accepted gen create install _ upload render _ download]
    by (simp add: example_script example_video_path [OF u] script_filename_def render_command_def
          u encode_def encode_char_def)
       (simp add: example_env_def)
qed

text \<open>
  C5 as stated fails where the download succeeds with no bytes: every stage succeeds and
  the body of the 200 response is empty.
\<close>

theorem success_with_empty_body:
  "trace (do_POST env_empty_video example_request) =
     [Generate (prompt (JStr ''E=mc^2'') (JStr ''E is energy, m is mass, c is speed of light''))
        (Inr example_answer),
      Create (Inr (Sandbox ''sandbox-1'')),
      Exec (Sandbox ''sandbox-1'') install_command 300 (Inr \<lparr>exit_code = 0, result = ''''\<rparr>),
      Upload (Sandbox ''sandbox-1'')
        ''/home/daytona/manim_script_0b2c9c4e-5d3a-4f1e-9a7b-3c2d1e0f4a5b.py''
        ''from manim import *'' (Inr ()),
      Exec (Sandbox ''sandbox-1'')
        ''manim -pql /home/daytona/manim_script_0b2c9c4e-5d3a-4f1e-9a7b-3c2d1e0f4a5b.py EquationExplanation''
        300 (Inr \<lparr>exit_code = 0, result = ''''\<rparr>),
      Download (Sandbox ''sandbox-1'')
        ''/home/daytona/media/videos/manim_script_0b2c9c4e-5d3a-4f1e-9a7b-3c2d1e0f4a5b/480p15/EquationExplanation.mp4''
        (Inr []),
      Send \<lparr>status = 200, resp_headers = [(''Content-type'', ''video/mp4'')], body = []\<rparr>,
      Remove (Sandbox ''sandbox-1'') (Inr ())]"
proof -
  let ?l = "JStr ''E=mc^2''" and ?x = "JStr ''E is energy, m is mass, c is speed of light''"
  have acc: "accepted env_empty_video example_request ?l ?x"
    by (rule accepted_cong [OF _ _ _ _ example_accepted]) (simp_all add: env_empty_video_def)
  have gs: "generate_manim_script env_empty_video ?l ?x = generate_manim_script example_env ?l ?x"
    by (rule generate_manim_script_cong) (simp add: env_empty_video_def)
  have u: "uuid4 env_empty_video = ''0b2c9c4e-5d3a-4f1e-9a7b-3c2d1e0f4a5b''"
    by (simp add: env_empty_video_def example_env_def)
  show ?thesis
    unfolding do_POST_accepted [OF acc]
    by (simp add: try_statement_def try_body_def gs example_script)
       (simp add: env_empty_video_def example_env_def install_command_def script_filename_def
          render_command_def video_path_def encode_def encode_char_def Let_def)
qed

text \<open>
  C7. When the request is accepted, the script is generated and the sandbox is provisioned,
  and the install command returns a non-zero exit code, the handler makes no upload,
  render or download call; it answers 500 with a JSON body whose error string is
  \<^verbatim>\<open>Failed to install Manim: \<close> followed by the captured output, and it destroys the
  sandbox once, after the response.
\<close>

theorem install_failure_aborts_and_destroys:
  assumes "accepted env req l x"
    and "snd (generate_manim_script env l x) = Inr script"
    and "daytona_create env = Inr sb"
    and "process_exec env sb install_command 300 = Inr r" and "exit_code r \<noteq> 0"
  shows \<open>trace (do_POST env req) =
     fst (generate_manim_script env l x) @
     [Create (Inr sb),
      Exec sb install_command 300 (Inr r),
      Send \<lparr>status = 500, resp_headers = [(''Content-type'', ''application/json'')],
            body = ''{"error": '' @ dumps_str (''Failed to install Manim: '' @ result r) @ ''}''\<rparr>,
      Remove sb (daytona_remove env sb)]\<close>
proof -
  obtain g where g: "generate_manim_script env l x = (g, Inr script)"
    using assms(2) by (cases "generate_manim_script env l x") simp
  show ?thesis
    unfolding do_POST_accepted [OF assms(1)]
    using assms(3-)
    by (simp add: try_statement_def try_body_def g Let_def json_response_def encode_error_body
          del: json_dumps.simps)
qed

theorem install_failure_aborts_and_destroys_witness:
  \<open>exit_code \<lparr>exit_code = 1, result = pip_output\<rparr> \<noteq> 0
   \<and> trace (do_POST env_install_fails example_request) =
     [Generate (prompt (JStr ''E=mc^2'') (JStr ''E is energy, m is mass, c is speed of light''))
        (Inr example_answer),
      Create (Inr (Sandbox ''sandbox-1'')),
      Exec (Sandbox ''sandbox-1'') install_command 300
        (Inr \<lparr>exit_code = 1, result = pip_output\<rparr>),
      Send \<lparr>status = 500, resp_headers = [(''Content-type'', ''application/json'')],
            body = ''{"error": "Failed to install Manim: ERROR: No matching distribution found for manim"}''\<rparr>,
      Remove (Sandbox ''sandbox-1'') (Inr ())]\<close>
proof -
  let ?l = "JStr ''E=mc^2''" and ?x = "JStr ''E is energy, m is mass, c is speed of light''"
  have acc: "accepted env_install_fails example_request ?l ?x"
    by (rule accepted_cong [OF _ _ _ _ example_accepted]) (simp_all add: env_install_fails_def)
  have gs: "generate_manim_script env_install_fails ?l ?x = generate_manim_script example_env ?l ?x"
    by (rule generate_manim_script_cong) (simp add: env_install_fails_def)
  have gen: "snd (generate_manim_script env_install_fails ?l ?x) = Inr ''from manim import *''"
    by (simp add: gs example_script)
  have create: "daytona_create env_install_fails = Inr (Sandbox ''sandbox-1'')"
    by (simp add: env_install_fails_def example_env_def)
  have install: "process_exec env_install_fails (Sandbox ''sandbox-1'') install_command 300
                   = Inr \<lparr>exit_code = 1, result = pip_output\<rparr>"
    by (simp add: env_install_fails_def)
  have remove: "daytona_remove env_install_fails (Sandbox ''sandbox-1'') = Inr ()"
    by (simp add: env_install_fails_def example_env_def)
  show ?thesis
    using install_failure_aborts_and_destroys [OF acc gen create install]
    by (simp add: gs example_script remove pip_output_def dumps_str_def dumps_char_def)
qed

subsection \<open>The download path\<close>

lemma uuid4_no_dot:
  assumes "is_uuid4 s"
  shows "CHR ''.'' \<notin> set s"
proof
  assume "CHR ''.'' \<in> set s"
  then obtain i where i: "i < length s" "s ! i = CHR ''.''"
    by (auto simp: in_set_conv_nth)
  from assms have "length s = 36"
    and a: "\<forall>i<36. if i \<in> {8, 13, 18, 23} then s ! i = CHR ''-'' else is_hex_digit (s ! i)"
    by (auto simp: is_uuid4_def list_all_iff)
  from i(1) \<open>length s = 36\<close> have "i < 36"
    by simp
  with a have "if i \<in> {8, 13, 18, 23} then s ! i = CHR ''-'' else is_hex_digit (s ! i)"
    by blast
  then have "s ! i = CHR ''-'' \<or> is_hex_digit (s ! i)"
    by (simp split: if_splits)
  then show False
    unfolding i(2) by (simp add: is_hex_digit_def)
qed

lemma replace_py_suffix:
  "CHR ''.'' \<notin> set s \<Longrightarrow> py_replace ''.py'' [] (s @ ''.py'') = s"
  by (induction s) auto

lemma remove_py_suffix_append: "remove_py_suffix (s @ ''.py'') = s"
  by (simp add: remove_py_suffix_def suffix_def)

lemma script_name_without_py:
  assumes "is_uuid4 (uuid4 env)"
  shows "py_replace ''.py'' [] (script_filename env) = ''manim_script_'' @ uuid4 env"
    and "remove_py_suffix (script_filename env) = ''manim_script_'' @ uuid4 env"
proof -
  have "CHR ''.'' \<notin> set (''manim_script_'' @ uuid4 env)"
    using uuid4_no_dot [OF assms] by simp
  from replace_py_suffix [OF this]
  show "py_replace ''.py'' [] (script_filename env) = ''manim_script_'' @ uuid4 env"
    by (simp add: script_filename_def)
  show "remove_py_suffix (script_filename env) = ''manim_script_'' @ uuid4 env"
    using remove_py_suffix_append [of "''manim_script_'' @ uuid4 env"]
    by (simp add: script_filename_def)
qed

lemma try_body_download:
  "try_body env l x = (t, sbo, r) \<Longrightarrow> Download sb p res \<in> set t \<Longrightarrow> p = video_path env"
  unfolding try_body_def generate_manim_script_def Let_def
  by (auto split: sum.splits if_splits prod.splits)

lemma do_POST_download:
  assumes "Download sb p res \<in> set (trace (do_POST env req))"
  shows "p = video_path env"
proof (cases "read_request env req")
  case (Inl e)
  with assms show ?thesis by (simp add: do_POST_def propagate_def)
next
  case (Inr lx)
  obtain l x where lx: "lx = (l, x)" by (cases lx)
  obtain t sbo r where b: "try_body env l x = (t, sbo, r)"
    by (cases "try_body env l x")
  from assms Inr lx have "Download sb p res \<in> set t"
    by (auto simp: do_POST_def try_statement_def b Let_def json_response_def
             split: if_splits option.splits)
  with b show ?thesis by (rule try_body_download)
qed

text \<open>
  C6. Whenever the handler downloads, the path is \<^verbatim>\<open>/home/daytona/media/videos/\<close>, the
  script file name without its \<^verbatim>\<open>.py\<close> suffix, and \<^verbatim>\<open>/480p15/EquationExplanation.mp4\<close>;
  the script file name is \<^verbatim>\<open>manim_script_\<close>, the UUID and \<^verbatim>\<open>.py\<close>. The path does not
  depend on what \<^verbatim>\<open>process.exec\<close> returns. (The source removes every \<^verbatim>\<open>.py\<close> of the
  name with \<^verbatim>\<open>replace\<close>; a UUID has no dot, so only the suffix goes.)
\<close>

theorem download_path_derived_from_script_name:
  assumes "Download sb p res \<in> set (trace (do_POST env req))"
    and "is_uuid4 (uuid4 env)"
  shows "p = ''/home/daytona/media/videos/'' @ remove_py_suffix (script_filename env)
             @ ''/480p15/EquationExplanation.mp4''
     \<and> p = ''/home/daytona/media/videos/manim_script_'' @ uuid4 env
             @ ''/480p15/EquationExplanation.mp4''
     \<and> video_path (env\<lparr>process_exec := f\<rparr>) = video_path env"
  using do_POST_download [OF assms(1)] script_name_without_py [OF assms(2)]
  by (simp add: video_path_def script_filename_def)

theorem download_path_derived_from_script_name_witness:
  "is_uuid4 (uuid4 example_env)
   \<and> Download (Sandbox ''sandbox-1'')
        ''/home/daytona/media/videos/manim_script_0b2c9c4e-5d3a-4f1e-9a7b-3c2d1e0f4a5b/480p15/EquationExplanation.mp4''
        (Inr example_video) \<in> set (trace (do_POST example_env example_request))
   \<and> ''/home/daytona/media/videos/manim_script_0b2c9c4e-5d3a-4f1e-9a7b-3c2d1e0f4a5b/480p15/EquationExplanation.mp4''
       = ''/home/daytona/media/videos/'' @ remove_py_suffix (script_filename example_env)
         @ ''/480p15/EquationExplanation.mp4''"
proof -
  have "is_uuid4 ''0b2c9c4e-5d3a-4f1e-9a7b-3c2d1e0f4a5b''"
    by code_simp
  then have u: "is_uuid4 (uuid4 example_env)"
    by (simp add: example_env_def)
  have d: "Download (Sandbox ''sandbox-1'')
        ''/home/daytona/media/videos/manim_script_0b2c9c4e-5d3a-4f1e-9a7b-3c2d1e0f4a5b/480p15/EquationExplanation.mp4''
        (Inr example_video) \<in> set (trace (do_POST example_env example_request))"
    by (simp add: example_run)
  from download_path_derived_from_script_name [OF d u]
  have "''/home/daytona/media/videos/manim_script_0b2c9c4e-5d3a-4f1e-9a7b-3c2d1e0f4a5b/480p15/EquationExplanation.mp4''
       = ''/home/daytona/media/videos/'' @ remove_py_suffix (script_filename example_env)
         @ ''/480p15/EquationExplanation.mp4''"
    by (rule conjunct1)
  with u d show ?thesis by (intro conjI)
qed

subsection \<open>Script generation\<close>

lemma backticks_simps [simp]:
  "backticks [] = 0"
  "backticks (c # cs) = (if c = CHR 0x60 then Suc (backticks cs) else 0)"
  by (simp_all add: backticks_def)

lemma prefix_fence_iff: "prefix ''```'' s \<longleftrightarrow> 3 \<le> backticks s"
proof (cases s)
  case Nil then show ?thesis by simp
next
  case (Cons a s1)
  show ?thesis
  proof (cases s1)
    case Nil with Cons show ?thesis by simp
  next
    case (Cons b s2)
    note c2 = this
    show ?thesis
    proof (cases s2)
      case Nil with \<open>s = a # s1\<close> c2 show ?thesis by simp
    next
      case (Cons c s3)
      with \<open>s = a # s1\<close> c2 show ?thesis by auto
    qed
  qed
qed

lemma backticks_drop: "n \<le> backticks s \<Longrightarrow> backticks (drop n s) = backticks s - n"
proof (induction s arbitrary: n)
  case Nil then show ?case by simp
next
  case (Cons a s)
  then show ?case by (cases n) (auto split: if_splits)
qed

lemma replace_fence_unfold:
  "py_replace ''```'' [] s =
     (if 3 \<le> backticks s then py_replace ''```'' [] (drop 3 s)
      else case s of [] \<Rightarrow> [] | c # cs \<Rightarrow> c # py_replace ''```'' [] cs)"
proof (cases s)
  case Nil
  then show ?thesis by simp
next
  case (Cons c cs)
  have ne: "''```'' \<noteq> ([] :: string)" by simp
  have len: "length ''```'' = 3" by simp
  have "py_replace ''```'' [] (c # cs) =
     (if prefix ''```'' (c # cs) then py_replace ''```'' [] (drop 3 (c # cs))
      else c # py_replace ''```'' [] cs)"
    by (subst py_replace.simps(2)) (simp only: ne len if_False append_Nil)
  then show ?thesis
    unfolding prefix_fence_iff Cons by (simp only: list.case)
qed

lemma backticks_replace:
  "backticks (py_replace ''```'' [] s) = backticks s mod 3"
proof (induction s rule: length_induct)
  case (1 s)
  show ?case
  proof (cases "3 \<le> backticks s")
    case True
    then have "s \<noteq> []" by auto
    then have "length (drop 3 s) < length s" by simp
    with 1 have "backticks (py_replace ''```'' [] (drop 3 s)) = backticks (drop 3 s) mod 3"
      by blast
    also have "\<dots> = (backticks s - 3) mod 3"
      using backticks_drop [OF True] by simp
    also have "\<dots> = backticks s mod 3"
      using True by (simp add: le_mod_geq)
    finally show ?thesis
      by (subst replace_fence_unfold) (simp only: True if_True)
  next
    case False
    show ?thesis
    proof (cases s)
      case Nil
      then show ?thesis by simp
    next
      case (Cons c cs)
      have r: "py_replace ''```'' [] s = c # py_replace ''```'' [] cs"
        using False unfolding Cons
        by (subst replace_fence_unfold) (simp only: if_False list.case)
      have ih: "backticks (py_replace ''```'' [] cs) = backticks cs mod 3"
        using 1 Cons by simp
      show ?thesis
      proof (cases "c = CHR 0x60")
        case True
        with False Cons have "backticks cs < 2" by simp
        then show ?thesis
          unfolding r using True Cons ih by simp
      next
        case False
        then show ?thesis unfolding r using Cons by simp
      qed
    qed
  qed
qed

lemma no_fence_replace: "\<not> sublist ''```'' (py_replace ''```'' [] s)"
proof (induction s rule: length_induct)
  case (1 s)
  show ?case
  proof (cases "3 \<le> backticks s")
    case True
    then have "s \<noteq> []" by auto
    then have "length (drop 3 s) < length s" by simp
    with 1 have "\<not> sublist ''```'' (py_replace ''```'' [] (drop 3 s))"
      by blast
    then show ?thesis
      by (subst replace_fence_unfold) (simp only: True if_True simp_thms)
  next
    case False
    show ?thesis
    proof (cases s)
      case Nil
      then show ?thesis by simp
    next
      case (Cons c cs)
      have r: "py_replace ''```'' [] s = c # py_replace ''```'' [] cs"
        using False unfolding Cons
        by (subst replace_fence_unfold) (simp only: if_False list.case)
      have ih: "\<not> sublist ''```'' (py_replace ''```'' [] cs)"
        using 1 Cons by simp
      have "\<not> prefix ''```'' (c # py_replace ''```'' [] cs)"
      proof
        assume "prefix ''```'' (c # py_replace ''```'' [] cs)"
        then have "3 \<le> backticks (c # py_replace ''```'' [] cs)"
          by (simp only: prefix_fence_iff)
        then have c: "c = CHR 0x60" and "2 \<le> backticks (py_replace ''```'' [] cs)"
          by (auto split: if_splits)
        then have "2 \<le> backticks cs mod 3"
          by (simp only: backticks_replace)
        moreover from False Cons c have "backticks cs < 2" by simp
        ultimately show False by simp
      qed
      with ih show ?thesis
        unfolding r by (simp only: sublist_Cons_right simp_thms)
    qed
  qed
qed

lemma sublist_strip: "sublist (py_strip s) s"
proof -
  have "sublist (rev (dropWhile py_isspace (rev (dropWhile py_isspace s)))) (dropWhile py_isspace s)"
    by (metis sublist_rev_right suffix_dropWhile suffix_imp_sublist rev_rev_ident)
  moreover have "sublist (dropWhile py_isspace s) s"
    by (rule suffix_imp_sublist) (rule suffix_dropWhile)
  ultimately show ?thesis unfolding py_strip_def by (rule sublist_order.order_trans)
qed

lemma strip_stripped:
  "py_strip s = [] \<or> \<not> py_isspace (hd (py_strip s)) \<and> \<not> py_isspace (last (py_strip s))"
proof (cases "py_strip s = []")
  case True then show ?thesis by simp
next
  case False
  let ?a = "dropWhile py_isspace s"
  let ?b = "dropWhile py_isspace (rev ?a)"
  have ne: "?b \<noteq> []" using False by (simp add: py_strip_def)
  then have h: "\<not> py_isspace (hd ?b)" by (rule hd_dropWhile)
  have l: "last (py_strip s) = hd ?b" using ne by (simp add: py_strip_def last_rev)
  have ane: "?a \<noteq> []"
  proof
    assume "?a = []"
    then have "?b = []" by (simp only: rev.simps dropWhile.simps)
    with ne show False ..
  qed
  then have ha: "\<not> py_isspace (hd ?a)" by (rule hd_dropWhile)
  obtain k where k: "rev ?a = k @ ?b"
    by (metis takeWhile_dropWhile_id)
  then have "?a = rev ?b @ rev k" by (metis rev_append rev_rev_ident)
  then have "hd ?a = hd (rev ?b)" using ne by (metis hd_append2 rev_is_Nil_conv)
  then have "hd (py_strip s) = hd ?a" by (simp add: py_strip_def)
  with ha h l False show ?thesis by simp
qed

lemma replace_no_occurrence:
  "old \<noteq> [] \<Longrightarrow> hd old \<notin> set s \<Longrightarrow> py_replace old [] s = s"
proof (induction s)
  case Nil then show ?case by simp
next
  case (Cons a s)
  then have "\<not> prefix old (a # s)" by (cases old) auto
  with Cons show ?case by simp
qed

text \<open>
  C8. \<^verbatim>\<open>generate_manim_script\<close> makes exactly one call of the model, with the prompt. When
  the call raises, so does the function. When it returns a text, the function returns that
  text with the occurrences of \<^verbatim>\<open>```python\<close> and then of \<^verbatim>\<open>```\<close> replaced by nothing and
  the surrounding whitespace stripped: the result holds neither marker, neither starts nor
  ends with whitespace, and is the stripped text itself when the text has no backtick.
\<close>

theorem generate_manim_script_one_call_fences_removed:
  "fst (generate_manim_script env latex_equation explanations)
     = [Generate (prompt latex_equation explanations)
          (generate_content env (prompt latex_equation explanations))]
   \<and> (case generate_content env (prompt latex_equation explanations) of
         Inl e \<Rightarrow> snd (generate_manim_script env latex_equation explanations) = Inl e
       | Inr text \<Rightarrow>
           (\<exists>script. snd (generate_manim_script env latex_equation explanations) = Inr script
              \<and> script = py_strip (py_replace ''```'' '''' (py_replace ''```python'' '''' text))
              \<and> \<not> sublist ''```'' script \<and> \<not> sublist ''```python'' script
              \<and> (script = [] \<or> \<not> py_isspace (hd script) \<and> \<not> py_isspace (last script))
              \<and> (CHR 0x60 \<notin> set text \<longrightarrow> script = py_strip text)))"
proof (cases "generate_content env (prompt latex_equation explanations)")
  case (Inl e)
  then show ?thesis by (simp add: generate_manim_script_def Let_def)
next
  case (Inr answer)
  let ?r = "py_replace ''```'' '''' (py_replace ''```python'' '''' answer)"
  have nf: "\<not> sublist ''```'' (py_strip ?r)"
    using no_fence_replace [of "py_replace ''```python'' '''' answer"] sublist_strip [of ?r]
    by (meson sublist_order.order_trans)
  have "sublist ''```'' ''```python''"
    by (rule prefix_imp_sublist) simp
  with nf have nfp: "\<not> sublist ''```python'' (py_strip ?r)"
    by (meson sublist_order.order_trans)
  have id: "CHR 0x60 \<notin> set answer \<Longrightarrow> ?r = answer"
    by (simp add: replace_no_occurrence)
  show ?thesis
    using Inr nf nfp strip_stripped [of ?r] id
    by (auto simp: generate_manim_script_def Let_def)
qed

theorem generate_manim_script_one_call_fences_removed_witness:
  "generate_manim_script example_env (JStr ''E=mc^2'') (JStr ''E is energy'')
     = ([Generate (prompt (JStr ''E=mc^2'') (JStr ''E is energy'')) (Inr example_answer)],
        Inr ''from manim import *'')
   \<and> \<not> sublist ''```'' ''from manim import *''"
  using generate_manim_script_one_call_fences_removed
          [of example_env "JStr ''E=mc^2''" "JStr ''E is energy''"]
  by (simp add: example_script)
     (simp add: example_env_def example_answer_def py_strip_def py_isspace_def)

subsection \<open>Reading and validating the request\<close>

lemma json_response_missing:
  "json_response 400 (JObj [(''error'', JStr ''Missing required data or API keys.'')])
     = missing_response"
  by (simp add: json_response_def encode_error_body missing_response_def dumps_str_def
        dumps_char_def del: json_dumps.simps)

lemma do_POST_rejected:
  assumes "read_request env req = Inr (l, x)"
    and "\<not> truthy l \<or> \<not> truthy x \<or> \<not> truthy (environ_value (DAYTONA_API_KEY env))
         \<or> \<not> truthy (environ_value (GEMINI_API_KEY env))"
  shows "do_POST env req = \<lparr>trace = [Send missing_response], uncaught = None\<rparr>"
  using assms by (auto simp: do_POST_def json_response_missing simp del: json_dumps.simps)

text \<open>
  C4, as amended. \<^verbatim>\<open>data.get\<close> gives \<^verbatim>\<open>None\<close> for a key the body lacks. When a
  credential is unset, or when the request, if it is read at all, has \<^verbatim>\<open>None\<close> for
  \<^verbatim>\<open>latex\<close> or \<^verbatim>\<open>explanations\<close>, the handler makes no model call and no provisioning
  call; and when the request is read (its length parses, its body is read and is a JSON
  object), the handler does nothing but write one response, status 400 with the JSON body
  shown, whose error field is not empty. Nothing is said here of the response to a request
  that is not read.
\<close>

theorem missing_input_rejected_before_any_call:
  assumes "DAYTONA_API_KEY env = None \<or> GEMINI_API_KEY env = None
     \<or> (case read_request env req of
           Inl e \<Rightarrow> True
         | Inr (latex_equation, explanations) \<Rightarrow> latex_equation = JNull \<or> explanations = JNull)"
  shows \<open>filter is_model_call (trace (do_POST env req)) = []
     \<and> filter is_provisioning_call (trace (do_POST env req)) = []
     \<and> (case read_request env req of
           Inl e \<Rightarrow> True
         | Inr lx \<Rightarrow>
             do_POST env req =
               \<lparr>trace = [Send \<lparr>status = 400,
                               resp_headers = [(''Content-type'', ''application/json'')],
                               body = ''{"error": "Missing required data or API keys."}''\<rparr>],
                uncaught = None\<rparr>)\<close>
proof (cases "read_request env req")
  case (Inl e)
  then show ?thesis by (simp add: do_POST_def propagate_def)
next
  case (Inr lx)
  obtain l x where f: "lx = (l, x)" by (cases lx)
  have "\<not> truthy l \<or> \<not> truthy x \<or> \<not> truthy (environ_value (DAYTONA_API_KEY env))
         \<or> \<not> truthy (environ_value (GEMINI_API_KEY env))"
    using assms Inr f by (auto simp: environ_value_def)
  from do_POST_rejected [OF Inr [unfolded f] this] Inr show ?thesis
    by (simp add: missing_response_def)
qed

lemma read_request_object:
  assumes "py_int (headers_get (headers req) ''Content-Length'') = Inr n"
    and "rfile_read (max_alloc env) (rfile req) n = Inr post_body"
    and "json_loads env post_body = Inr (JObj kvs)"
  shows "read_request env req =
     Inr (case map_of kvs ''latex'' of None \<Rightarrow> JNull | Some v \<Rightarrow> v,
          case map_of kvs ''explanations'' of None \<Rightarrow> JNull | Some v \<Rightarrow> v)"
  using assms by (simp add: read_request_def py_get_def)

theorem missing_input_rejected_before_any_call_witness:
  \<open>read_request example_env request_without_explanations = Inr (JStr ''E=mc^2'', JNull)
   \<and> filter is_model_call (trace (do_POST example_env request_without_explanations)) = []
   \<and> filter is_provisioning_call (trace (do_POST example_env request_without_explanations)) = []
   \<and> do_POST example_env request_without_explanations =
     \<lparr>trace = [Send \<lparr>status = 400, resp_headers = [(''Content-type'', ''application/json'')],
                     body = ''{"error": "Missing required data or API keys."}''\<rparr>],
      uncaught = None\<rparr>\<close>
proof -
  have n: "py_int (headers_get (headers request_without_explanations) ''Content-Length'') = Inr 19"
    by (simp add: request_defs builtin_defs)
  have b: "rfile_read (max_alloc example_env) (rfile request_without_explanations) 19
             = Inr body_without_explanations"
    by (simp add: request_defs example_defs rfile_read_def)
  have d: "json_loads example_env body_without_explanations = Inr (JObj [(''latex'', JStr ''E=mc^2'')])"
    by (simp add: example_defs)
  have r: "read_request example_env request_without_explanations = Inr (JStr ''E=mc^2'', JNull)"
    using read_request_object [OF n b d] by simp
  have m: "DAYTONA_API_KEY example_env = None \<or> GEMINI_API_KEY example_env = None
     \<or> (case read_request example_env request_without_explanations of
           Inl e \<Rightarrow> True
         | Inr (latex_equation, explanations) \<Rightarrow> latex_equation = JNull \<or> explanations = JNull)"
    by (simp add: r)
  from missing_input_rejected_before_any_call [OF m] r show ?thesis by simp
qed

text \<open>
  C4 as stated fails: the body \<^verbatim>\<open>[1, 2]\<close> has no \<^verbatim>\<open>latex\<close> field, and the handler
  answers nothing: \<^verbatim>\<open>data.get\<close> raises \<^verbatim>\<open>AttributeError\<close> at line 40, outside the
  \<^verbatim>\<open>try\<close> statement.
\<close>

theorem missing_field_without_response:
  "trace (do_POST example_env request_array) = []
   \<and> map_option exn_cls (uncaught (do_POST example_env request_array)) = Some AttributeError"
proof -
  have "read_request example_env request_array
          = Inl (Raise AttributeError
                  (py_repr_str ''list'' @ '' object has no attribute '' @ py_repr_str ''get''))"
    by (simp add: read_request_def request_defs example_defs builtin_defs)
  then show ?thesis
    by (simp add: do_POST_def propagate_def)
qed

text \<open>
  C10. The validation is one truthiness test over the two fields and the two credentials:
  whichever of them is falsy, the handler writes the same response and nothing else. The
  empty string, a missing field (\<^verbatim>\<open>None\<close>) and an unset credential are all falsy, so
  the response does not tell them apart.
\<close>

theorem falsy_input_same_rejection:
  assumes "read_request env req = Inr (latex_equation, explanations)"
    and "\<not> truthy latex_equation \<or> \<not> truthy explanations
         \<or> \<not> truthy (environ_value (DAYTONA_API_KEY env))
         \<or> \<not> truthy (environ_value (GEMINI_API_KEY env))"
  shows "do_POST env req = \<lparr>trace = [Send missing_response], uncaught = None\<rparr>
     \<and> \<not> truthy (JStr '''') \<and> \<not> truthy JNull \<and> \<not> truthy (environ_value None)"
  using do_POST_rejected [OF assms] by (simp add: environ_value_def)

theorem falsy_input_same_rejection_witness:
  "read_request example_env request_empty_latex = Inr (JStr '''', JStr ''E is energy'')
   \<and> do_POST example_env request_empty_latex
       = \<lparr>trace = [Send missing_response], uncaught = None\<rparr>
   \<and> do_POST example_env request_empty_latex = do_POST example_env request_without_explanations"
proof -
  have r: "read_request example_env request_empty_latex = Inr (JStr '''', JStr ''E is energy'')"
    by (simp add: read_request_def request_defs example_defs builtin_defs)
  have r': "read_request example_env request_without_explanations = Inr (JStr ''E=mc^2'', JNull)"
    by (simp add: read_request_def request_defs example_defs builtin_defs)
  have f: "\<not> truthy (JStr '''') \<or> \<not> truthy (JStr ''E is energy'')
      \<or> \<not> truthy (environ_value (DAYTONA_API_KEY example_env))
      \<or> \<not> truthy (environ_value (GEMINI_API_KEY example_env))"
    by simp
  have f': "\<not> truthy (JStr ''E=mc^2'') \<or> \<not> truthy JNull
      \<or> \<not> truthy (environ_value (DAYTONA_API_KEY example_env))
      \<or> \<not> truthy (environ_value (GEMINI_API_KEY example_env))"
    by simp
  from falsy_input_same_rejection [OF r f] falsy_input_same_rejection [OF r' f'] r
  show ?thesis by simp
qed

text \<open>
  C9. When the request has no \<^verbatim>\<open>Content-Length\<close> header, or one that is not an integer
  literal, \<^verbatim>\<open>int(...)\<close> raises (a \<^verbatim>\<open>TypeError\<close> for the absent header, a
  \<^verbatim>\<open>ValueError\<close> otherwise) and the exception leaves the handler: the trace is empty, so
  no response of any kind is written, and the outcome is the same whatever the body and
  the collaborators are.
\<close>

theorem bad_content_length_raises:
  assumes "headers_get (headers req) ''Content-Length'' = None
     \<or> (\<exists>s. headers_get (headers req) ''Content-Length'' = Some s \<and> \<not> is_int_literal s)"
  shows "trace (do_POST env req) = []
     \<and> map_option exn_cls (uncaught (do_POST env req))
         = Some (if headers_get (headers req) ''Content-Length'' = None then TypeError
                 else ValueError)
     \<and> do_POST env' (req\<lparr>rfile := b\<rparr>) = do_POST env req"
  using assms
  by (auto simp: do_POST_def read_request_def py_int_def propagate_def)

theorem bad_content_length_raises_witness:
  "headers_get (headers request_no_length) ''Content-Length'' = None
   \<and> trace (do_POST example_env request_no_length) = []
   \<and> map_option exn_cls (uncaught (do_POST example_env request_no_length)) = Some TypeError
   \<and> headers_get (headers request_bad_length) ''Content-Length'' = Some ''eighty-two''
   \<and> \<not> is_int_literal ''eighty-two''
   \<and> trace (do_POST example_env request_bad_length) = []
   \<and> map_option exn_cls (uncaught (do_POST example_env request_bad_length)) = Some ValueError
   \<and> headers_get (headers request_separator_length) ''Content-Length'' = Some (CHR 0x1C # ''82'')
   \<and> \<not> is_int_literal (CHR 0x1C # ''82'')
   \<and> trace (do_POST example_env request_separator_length) = []
   \<and> map_option exn_cls (uncaught (do_POST example_env request_separator_length))
       = Some ValueError"
proof -
  have s: "headers_get (headers request_separator_length) ''Content-Length''
             = Some (CHR 0x1C # ''82'')"
    by (simp add: request_defs headers_get_def lower_char_def)
  have t: "\<not> is_int_literal (CHR 0x1C # ''82'')"
    by (simp add: builtin_defs)
  have s': "headers_get (headers request_separator_length) ''Content-Length'' = None
     \<or> (\<exists>s. headers_get (headers request_separator_length) ''Content-Length'' = Some s
             \<and> \<not> is_int_literal s)"
    using s t by simp
  have a: "headers_get (headers request_no_length) ''Content-Length'' = None"
    by (simp add: request_defs headers_get_def lower_char_def)
  have b: "headers_get (headers request_bad_length) ''Content-Length'' = Some ''eighty-two''"
    by (simp add: request_defs headers_get_def lower_char_def)
  have c: "\<not> is_int_literal ''eighty-two''"
    by (simp add: builtin_defs)
  have a': "headers_get (headers request_no_length) ''Content-Length'' = None
     \<or> (\<exists>s. headers_get (headers request_no_length) ''Content-Length'' = Some s
             \<and> \<not> is_int_literal s)"
    using a by simp
  have b': "headers_get (headers request_bad_length) ''Content-Length'' = None
     \<or> (\<exists>s. headers_get (headers request_bad_length) ''Content-Length'' = Some s
             \<and> \<not> is_int_literal s)"
    using b c by simp
  from bad_content_length_raises [OF a', of example_env]
       bad_content_length_raises [OF b', of example_env]
       bad_content_length_raises [OF s', of example_env] a b c s t
  show ?thesis by simp
qed

subsection \<open>Empty and malformed bodies\<close>

text \<open>
  In \<^verbatim>\<open>route.py\<close> the body is parsed outside the \<^verbatim>\<open>try\<close> statement: an exception of
  \<^verbatim>\<open>json.loads\<close> leaves the handler and nothing is written.
\<close>

lemma do_POST_unparsed_body:
  assumes "py_int (headers_get (headers req) ''Content-Length'') = Inr n"
    and "rfile_read (max_alloc env) (rfile req) n = Inr post_body"
    and "json_loads env post_body = Inl e"
  shows "do_POST env req = \<lparr>trace = [], uncaught = Some e\<rparr>"
  using assms by (simp add: do_POST_def read_request_def propagate_def)

text \<open>
  C2 fails on \<^verbatim>\<open>route.py\<close>: for the request with an empty body, and for the one whose
  body is not JSON, \<^verbatim>\<open>do_POST\<close> writes no response; the \<^verbatim>\<open>JSONDecodeError\<close> leaves it.
\<close>

theorem empty_or_malformed_body_raises:
  "do_POST example_env request_no_body =
     \<lparr>trace = [],
      uncaught = Some (Raise JSONDecodeError ''Expecting value: line 1 column 1 (char 0)'')\<rparr>
   \<and> do_POST example_env request_malformed =
     \<lparr>trace = [],
      uncaught = Some (Raise JSONDecodeError ''Expecting value: line 1 column 1 (char 0)'')\<rparr>"
proof -
  have a: "py_int (headers_get (headers request_no_body) ''Content-Length'') = Inr 0"
    by (simp add: request_defs builtin_defs)
  have r: "rfile_read (max_alloc example_env) (rfile request_no_body) 0 = Inr []"
    by (simp add: request_defs example_defs rfile_read_def)
  have b: "json_loads example_env []
     = Inl (Raise JSONDecodeError ''Expecting value: line 1 column 1 (char 0)'')"
    by (simp add: example_defs)
  have c: "py_int (headers_get (headers request_malformed) ''Content-Length'') = Inr 8"
    by (simp add: request_defs builtin_defs)
  have r': "rfile_read (max_alloc example_env) (rfile request_malformed) 8 = Inr ''not json''"
    by (simp add: request_defs example_defs rfile_read_def)
  have d: "json_loads example_env ''not json''
     = Inl (Raise JSONDecodeError ''Expecting value: line 1 column 1 (char 0)'')"
    by (simp add: example_defs)
  from do_POST_unparsed_body [OF a r b] do_POST_unparsed_body [OF c r' d]
  show ?thesis by simp
qed

text \<open>
  The handler of \<^verbatim>\<open>index.py\<close> answers both cases with status 400 and the bodies the
  claim names.
\<close>

lemma send_json_empty_body:
  \<open>send_json (JObj [(''error'', JStr ''Empty request body'')]) 400 =
     \<lparr>status = 400,
      resp_headers = [(''Content-Type'', ''application/json; charset=utf-8''),
                      (''Content-Length'', ''31'')],
      body = ''{"error": "Empty request body"}''\<rparr>\<close>
proof -
  have e: \<open>encode (json_dumps (JObj [(''error'', JStr ''Empty request body'')]))
            = ''{"error": "Empty request body"}''\<close>
    unfolding encode_error_body by (simp add: dumps_str_def dumps_char_def)
  have n: \<open>string_of_nat (length ''{"error": "Empty request body"}'') = ''31''\<close>
    by code_simp
  show ?thesis
    unfolding send_json_def e n ..
qed

lemma send_json_invalid:
  \<open>send_json (JObj [(''error'', JStr ''Invalid JSON payload'')]) 400 =
     \<lparr>status = 400,
      resp_headers = [(''Content-Type'', ''application/json; charset=utf-8''),
                      (''Content-Length'', ''33'')],
      body = ''{"error": "Invalid JSON payload"}''\<rparr>\<close>
proof -
  have e: \<open>encode (json_dumps (JObj [(''error'', JStr ''Invalid JSON payload'')]))
            = ''{"error": "Invalid JSON payload"}''\<close>
    unfolding encode_error_body by (simp add: dumps_str_def dumps_char_def)
  have n: \<open>string_of_nat (length ''{"error": "Invalid JSON payload"}'') = ''33''\<close>
    by code_simp
  show ?thesis
    unfolding send_json_def e n ..
qed

lemma echo_empty_body:
  assumes "py_int (Some (case headers_get (headers req) ''content-length'' of
                           None \<Rightarrow> ''0'' | Some v \<Rightarrow> v)) = Inr n"
    and "n = 0 \<or> rfile_read (max_alloc env) (rfile req) n = Inr []"
  shows \<open>echo_do_POST env req =
     \<lparr>trace = [Send \<lparr>status = 400,
                     resp_headers = [(''Content-Type'', ''application/json; charset=utf-8''),
                                     (''Content-Length'', ''31'')],
                     body = ''{"error": "Empty request body"}''\<rparr>],
      uncaught = None\<rparr>\<close>
  using assms by (auto simp: echo_do_POST_def send_json_empty_body simp del: json_dumps.simps)

lemma echo_malformed_body:
  assumes "py_int (Some (case headers_get (headers req) ''content-length'' of
                           None \<Rightarrow> ''0'' | Some v \<Rightarrow> v)) = Inr n"
    and "n \<noteq> 0" and "rfile_read (max_alloc env) (rfile req) n = Inr raw_body"
    and "raw_body \<noteq> []"
    and "json_loads_utf8 env raw_body = Inl (Raise JSONDecodeError m)"
  shows \<open>echo_do_POST env req =
     \<lparr>trace = [Send \<lparr>status = 400,
                     resp_headers = [(''Content-Type'', ''application/json; charset=utf-8''),
                                     (''Content-Length'', ''33'')],
                     body = ''{"error": "Invalid JSON payload"}''\<rparr>],
      uncaught = None\<rparr>\<close>
  using assms by (auto simp: echo_do_POST_def send_json_invalid simp del: json_dumps.simps)

end
